theory Spec2Isabelle
  imports Main "HOL-Library.Sublist"
begin

section \<open>Symlinker: a shallow embedding of main.go\<close>

text \<open>
  The program reads a configuration file line by line and, for every entry
  \<open>link target\<close>, makes sure the parent directory of the link exists and then replaces
  whatever is at the link path by a symbolic link to the target. With \<open>--dry-run\<close> it
  only prints what it would do.

  Go strings are byte sequences, so they are \<^typ>\<open>string\<close> (lists of 8-bit characters).
  Everything the program does to the outside (standard output, calls into package
  \<open>os\<close>) is recorded, in order, in a trace that is threaded through every function
  together with the state of the file system.
\<close>

subsection \<open>Errors\<close>

text \<open>
  main.go looks at an \<open>error\<close> value in three ways only: it compares it with \<open>nil\<close>,
  it asks \<open>os.IsNotExist\<close> about it, and it formats it (\<open>%w\<close>, \<open>%s\<close>). A value of
  \<open>go_error\<close> holds the answers to the last two; \<open>nil\<close> is \<^const>\<open>None\<close> of
  \<open>go_error option\<close>.
\<close>

datatype go_error = GoError (not_exist: bool) (Error: string)

fun os_IsNotExist :: "go_error option \<Rightarrow> bool" where
  "os_IsNotExist None = False"
| "os_IsNotExist (Some e) = not_exist e"

text \<open>
  \<open>fmt.Errorf\<close> builds a new error from the formatted message. \<open>os.IsNotExist\<close> does
  not look through such a wrapper, so the flag is \<^const>\<open>False\<close>.
\<close>

definition fmt_Errorf :: "string \<Rightarrow> go_error" where
  "fmt_Errorf msg = GoError False msg"

subsection \<open>Library functions on strings\<close>

text \<open>
  \<open>strings.Fields\<close> splits around runs of white space as \<open>unicode.IsSpace\<close> defines
  it. The table lists the UTF-8 encodings of those code points: U+0009 to U+000D, U+0020,
  U+0085, U+00A0, U+1680, U+2000 to U+200A, U+2028, U+2029, U+202F, U+205F, U+3000.
  Every multi-byte entry starts with a lead byte and continues with bytes
  \<open>0x80..0xBF\<close>, so looking for an entry at every byte offset finds the same runes as
  Go's rune-by-rune decoding does (an invalid byte is one non-space rune there).
\<close>

definition white_space_runes :: "string list" where
  "white_space_runes =
    [[CHR 0x09], [CHR 0x0A], [CHR 0x0B], [CHR 0x0C], [CHR 0x0D], [CHR 0x20],
     [CHR 0xC2, CHR 0x85], [CHR 0xC2, CHR 0xA0],
     [CHR 0xE1, CHR 0x9A, CHR 0x80],
     [CHR 0xE2, CHR 0x80, CHR 0x80], [CHR 0xE2, CHR 0x80, CHR 0x81],
     [CHR 0xE2, CHR 0x80, CHR 0x82], [CHR 0xE2, CHR 0x80, CHR 0x83],
     [CHR 0xE2, CHR 0x80, CHR 0x84], [CHR 0xE2, CHR 0x80, CHR 0x85],
     [CHR 0xE2, CHR 0x80, CHR 0x86], [CHR 0xE2, CHR 0x80, CHR 0x87],
     [CHR 0xE2, CHR 0x80, CHR 0x88], [CHR 0xE2, CHR 0x80, CHR 0x89],
     [CHR 0xE2, CHR 0x80, CHR 0x8A],
     [CHR 0xE2, CHR 0x80, CHR 0xA8], [CHR 0xE2, CHR 0x80, CHR 0xA9],
     [CHR 0xE2, CHR 0x80, CHR 0xAF],
     [CHR 0xE2, CHR 0x81, CHR 0x9F],
     [CHR 0xE3, CHR 0x80, CHR 0x80]]"

text \<open>The number of bytes of the white-space rune a string starts with, 0 if none.\<close>

definition space_width :: "string \<Rightarrow> nat" where
  "space_width s =
    (case find (\<lambda>r. prefix r s) white_space_runes of None \<Rightarrow> 0 | Some r \<Rightarrow> length r)"

text \<open>
  \<open>strings.Fields\<close>: the maximal runs of non-space bytes, in order. The first argument
  is the field being collected.
\<close>

function fields_from :: "string \<Rightarrow> string \<Rightarrow> string list" where
  "fields_from cur [] = (if cur = [] then [] else [cur])"
| "fields_from cur (c # cs) =
    (if space_width (c # cs) = 0 then fields_from (cur @ [c]) cs
     else (if cur = [] then [] else [cur])
          @ fields_from [] (drop (space_width (c # cs)) (c # cs)))"
  by pat_completeness auto
termination
  by (relation "measure (\<lambda>(cur, s). length s)") auto

definition strings_Fields :: "string \<Rightarrow> string list" where
  "strings_Fields s = fields_from [] s"

definition strings_Contains_dollar :: "string \<Rightarrow> bool" where
  "strings_Contains_dollar s \<longleftrightarrow> CHR ''$'' \<in> set s"

text \<open>
  The comment pattern is \<^verbatim>\<open>^\s*#\<close>. In Go's regular expressions \<^verbatim>\<open>\s\<close> is the class
  of tab, newline, form feed, carriage return and space (not vertical tab, and no
  non-ASCII space). The pattern is anchored at the start of the text, and \<open>#\<close> is not
  in the class, so it matches exactly when the first byte outside the class is \<open>#\<close>.
\<close>

definition perl_space :: "char \<Rightarrow> bool" where
  "perl_space c \<longleftrightarrow> c \<in> set [CHR 0x09, CHR 0x0A, CHR 0x0C, CHR 0x0D, CHR 0x20]"

definition commentRegex_MatchString :: "string \<Rightarrow> bool" where
  "commentRegex_MatchString line =
    (case dropWhile perl_space line of [] \<Rightarrow> False | c # _ \<Rightarrow> c = CHR ''#'')"

text \<open>\<open>os.Expand\<close> with its helpers, as in package \<open>os\<close> (env.go).\<close>

definition isShellSpecialVar :: "char \<Rightarrow> bool" where
  "isShellSpecialVar c \<longleftrightarrow> c \<in> set ''*#$@!?-0123456789''"

definition isAlphaNum :: "char \<Rightarrow> bool" where
  "isAlphaNum c \<longleftrightarrow>
    c \<in> set ''_0123456789abcdefghijklmnopqrstuvwxyzABCDEFGHIJKLMNOPQRSTUVWXYZ''"

text \<open>
  \<open>getShellName\<close> returns the variable name a string starts with and the number of
  bytes it used up. Go indexes \<open>s[0]\<close>; its only caller passes a non-empty string.
\<close>

fun getShellName :: "string \<Rightarrow> string \<times> nat" where
  "getShellName [] = ([], 0)"
| "getShellName (c # cs) =
    (if c = CHR ''{'' then
       (if length (c # cs) > 2 \<and> isShellSpecialVar (cs ! 0) \<and> cs ! 1 = CHR ''}''
        then ([cs ! 0], 3)
        else (let name = takeWhile (\<lambda>x. x \<noteq> CHR ''}'') cs in
              if length name = length cs then ([], 1)
              else if name = [] then ([], 2)
              else (name, length name + 2)))
     else if isShellSpecialVar c then ([c], 1)
     else (let name = takeWhile isAlphaNum (c # cs) in (name, length name)))"

function Expand :: "string \<Rightarrow> (string \<Rightarrow> string) \<Rightarrow> string" where
  "Expand [] mapping = []"
| "Expand (c # cs) mapping =
    (if c = CHR ''$'' \<and> cs \<noteq> [] then
       (case getShellName cs of
          (name, w) \<Rightarrow>
            (if name = [] \<and> w > 0 then []
             else if name = [] then [c]
             else mapping name)
            @ Expand (drop w cs) mapping)
     else c # Expand cs mapping)"
  by pat_completeness auto
termination
  by (relation "measure (\<lambda>(s, mapping). length s)") auto

text \<open>The verb \<open>%d\<close> on a line number: decimal digits.\<close>

definition digit_char :: "nat \<Rightarrow> char" where
  "digit_char d = char_of (48 + d)"

function format_d :: "nat \<Rightarrow> string" where
  "format_d n = (if n < 10 then [digit_char n] else format_d (n div 10) @ [digit_char (n mod 10)])"
  by pat_completeness auto
termination
  by (relation "measure id") auto

declare format_d.simps [simp del]

subsection \<open>The operating system\<close>

text \<open>
  What the calls into packages \<open>os\<close> and \<open>path/filepath\<close> answer is not decided by
  main.go, so it is a parameter: a record of functions over a file-system state of any
  type \<open>'fs\<close>. \<open>Stat\<close>, \<open>Lstat\<close>, \<open>Open\<close>, \<open>Executable\<close> and \<open>EvalSymlinks\<close> only read
  that state; \<open>MkdirAll\<close>, \<open>RemoveAll\<close> and \<open>Symlink\<close> return a new one, also when they
  fail. \<open>os_Open\<close> stands for opening the file and scanning it with a \<open>bufio.Scanner\<close>:
  it answers with the lines \<open>Scan\<close>/\<open>Text\<close> deliver until \<open>Scan\<close> returns false and with
  what \<open>Err\<close> says then. The program reads through the descriptor it opened, so what it
  does to the file system while it scans does not change these lines.
\<close>

record 'fs platform =
  os_Executable :: "'fs \<Rightarrow> go_error + string"
  filepath_EvalSymlinks :: "'fs \<Rightarrow> string \<Rightarrow> go_error + string"
  filepath_Dir :: "string \<Rightarrow> string"
  filepath_Join :: "string \<Rightarrow> string \<Rightarrow> string"
  os_Getenv :: "string \<Rightarrow> string"
  os_Stat :: "'fs \<Rightarrow> string \<Rightarrow> go_error option"
  os_Lstat :: "'fs \<Rightarrow> string \<Rightarrow> go_error option"
  os_Open :: "'fs \<Rightarrow> string \<Rightarrow> go_error + string list \<times> go_error option"
  os_MkdirAll :: "'fs \<Rightarrow> string \<Rightarrow> go_error option \<times> 'fs"
  os_RemoveAll :: "'fs \<Rightarrow> string \<Rightarrow> go_error option \<times> 'fs"
  os_Symlink :: "'fs \<Rightarrow> string \<Rightarrow> string \<Rightarrow> go_error option \<times> 'fs"

datatype event =
    Stdout string
  | Stderr string
  | Call_Executable
  | Call_EvalSymlinks string
  | Call_Stat string
  | Call_Lstat string
  | Call_Open string
  | Call_MkdirAll string
  | Call_RemoveAll string
  | Call_Symlink string string

record 'fs world =
  fs :: 'fs
  trace :: "event list"

definition emit :: "event \<Rightarrow> 'fs world \<Rightarrow> 'fs world" where
  "emit e w = w\<lparr>trace := trace w @ [e]\<rparr>"

definition fmt_Printf :: "string \<Rightarrow> 'fs world \<Rightarrow> 'fs world" where
  "fmt_Printf s w = emit (Stdout s) w"

definition fmt_Println :: "string \<Rightarrow> 'fs world \<Rightarrow> 'fs world" where
  "fmt_Println s w = emit (Stdout (s @ ''\<newline>'')) w"

definition call_Stat :: "'fs platform \<Rightarrow> string \<Rightarrow> 'fs world \<Rightarrow> go_error option \<times> 'fs world" where
  "call_Stat P path w = (os_Stat P (fs w) path, emit (Call_Stat path) w)"

definition call_Lstat :: "'fs platform \<Rightarrow> string \<Rightarrow> 'fs world \<Rightarrow> go_error option \<times> 'fs world" where
  "call_Lstat P path w = (os_Lstat P (fs w) path, emit (Call_Lstat path) w)"

definition call_Open ::
  "'fs platform \<Rightarrow> string \<Rightarrow> 'fs world \<Rightarrow> (go_error + string list \<times> go_error option) \<times> 'fs world" where
  "call_Open P path w = (os_Open P (fs w) path, emit (Call_Open path) w)"

definition call_MkdirAll :: "'fs platform \<Rightarrow> string \<Rightarrow> 'fs world \<Rightarrow> go_error option \<times> 'fs world" where
  "call_MkdirAll P path w =
    (case os_MkdirAll P (fs w) path of
       (err, fs') \<Rightarrow> (err, emit (Call_MkdirAll path) (w\<lparr>fs := fs'\<rparr>)))"

definition call_RemoveAll :: "'fs platform \<Rightarrow> string \<Rightarrow> 'fs world \<Rightarrow> go_error option \<times> 'fs world" where
  "call_RemoveAll P path w =
    (case os_RemoveAll P (fs w) path of
       (err, fs') \<Rightarrow> (err, emit (Call_RemoveAll path) (w\<lparr>fs := fs'\<rparr>)))"

definition call_Symlink ::
  "'fs platform \<Rightarrow> string \<Rightarrow> string \<Rightarrow> 'fs world \<Rightarrow> go_error option \<times> 'fs world" where
  "call_Symlink P oldname newname w =
    (case os_Symlink P (fs w) oldname newname of
       (err, fs') \<Rightarrow> (err, emit (Call_Symlink oldname newname) (w\<lparr>fs := fs'\<rparr>)))"

subsection \<open>main.go\<close>

text \<open>\<open>ensureDirExists\<close> creates a directory if it doesn't exist.\<close>

definition ensureDirExists ::
  "'fs platform \<Rightarrow> string \<Rightarrow> bool \<Rightarrow> 'fs world \<Rightarrow> go_error option \<times> 'fs world" where
  "ensureDirExists P path dryRun w =
    (case call_Stat P path w of
       (err, w1) \<Rightarrow>
         if os_IsNotExist err then
           if dryRun then
             (None, fmt_Printf (''[DRY RUN] Would create directory: '' @ path @ ''\<newline>'') w1)
           else
             call_MkdirAll P path (fmt_Printf (''Creating directory: '' @ path @ ''\<newline>'') w1)
         else (None, w1))"

text \<open>\<open>expandPath\<close> is \<open>os.ExpandEnv\<close>, that is \<open>os.Expand\<close> with \<open>os.Getenv\<close>.\<close>

definition expandPath :: "'fs platform \<Rightarrow> string \<Rightarrow> string" where
  "expandPath P path = Expand path (os_Getenv P)"

text \<open>\<open>createSymlink\<close> creates a symbolic link.\<close>

definition createSymlink ::
  "'fs platform \<Rightarrow> string \<Rightarrow> string \<Rightarrow> bool \<Rightarrow> 'fs world \<Rightarrow> go_error option \<times> 'fs world" where
  "createSymlink P targetPath symlinkPath dryRun w =
    (case call_Lstat P symlinkPath w of
       (err, w1) \<Rightarrow>
         (case (if err = None then
                  if dryRun then
                    (None, fmt_Printf (''[DRY RUN] Would remove existing: '' @ symlinkPath @ ''\<newline>'') w1)
                  else
                    (case call_RemoveAll P symlinkPath
                            (fmt_Printf (''Removing existing: '' @ symlinkPath @ ''\<newline>'') w1) of
                       (None, w2) \<Rightarrow> (None, w2)
                     | (Some e, w2) \<Rightarrow>
                         (Some (fmt_Errorf (''error removing existing path: '' @ Error e)), w2))
                else (None, w1)) of
            (Some e, w2) \<Rightarrow> (Some e, w2)
          | (None, w2) \<Rightarrow>
              if dryRun then
                (None, fmt_Printf (''[DRY RUN] Would create symlink: '' @ symlinkPath @ '' -> ''
                                   @ targetPath @ ''\<newline>'') w2)
              else
                call_Symlink P targetPath symlinkPath
                  (fmt_Printf (''Creating symlink: '' @ symlinkPath @ '' -> '' @ targetPath
                               @ ''\<newline>'') w2)))"

text \<open>
  The body of the \<open>for scanner.Scan()\<close> loop of \<open>setupSymlinks\<close>, for one line.
  \<open>lineNumber\<close> is the counter after its increment. The result \<^const>\<open>None\<close> means that
  the loop goes on with the next line (by \<open>continue\<close> or by reaching the end of the
  body); \<open>Some e\<close> means that \<open>setupSymlinks\<close> returns \<open>e\<close>. The counter is a Go
  \<open>int\<close>; it is modelled as a natural number, since it cannot wrap before the file has
  \<open>2^63\<close> lines.
\<close>

definition loopBody ::
  "'fs platform \<Rightarrow> bool \<Rightarrow> nat \<Rightarrow> string \<Rightarrow> 'fs world \<Rightarrow> go_error option \<times> 'fs world" where
  "loopBody P dryRun lineNumber line w =
    (if line = [] \<or> commentRegex_MatchString line then (None, w)
     else
       let fields = strings_Fields line in
       if length fields < 2 then
         (None, fmt_Printf (''Warning: Invalid line '' @ format_d lineNumber
                            @ '' in config file: '' @ line @ ''\<newline>'') w)
       else
         let symlinkPath = expandPath P (fields ! 0);
             actualPath = expandPath P (fields ! 1) in
         if symlinkPath = [] \<or> actualPath = [] then
           (None, fmt_Printf (''Warning: Invalid paths at line '' @ format_d lineNumber
                              @ '' in config file: '' @ line @ ''\<newline>'') w)
         else
           let w1 = (if strings_Contains_dollar symlinkPath \<or> strings_Contains_dollar actualPath
                     then fmt_Printf (''Warning: Unexpanded environment variables at line ''
                                      @ format_d lineNumber @ '': '' @ line @ ''\<newline>'') w
                     else w);
               symlinkDir = filepath_Dir P symlinkPath;
               w2 = (if dryRun then
                       fmt_Printf (''[DRY RUN] Expanded: '' @ symlinkPath @ '' -> '' @ actualPath
                                   @ '' (dir: '' @ symlinkDir @ '')\<newline>'')
                         (fmt_Printf (''[DRY RUN] Line '' @ format_d lineNumber @ '': '' @ fields ! 0
                                      @ '' -> '' @ fields ! 1 @ ''\<newline>'')
                            (fmt_Printf ''\<newline>'' w1))
                     else w1)
           in
           (case ensureDirExists P symlinkDir dryRun w2 of
              (Some err, w3) \<Rightarrow>
                (Some (fmt_Errorf (''error creating directory '' @ symlinkDir @ '': '' @ Error err)), w3)
            | (None, w3) \<Rightarrow>
                (case createSymlink P actualPath symlinkPath dryRun w3 of
                   (Some err, w4) \<Rightarrow>
                     (Some (fmt_Errorf (''error creating symlink at line '' @ format_d lineNumber
                                        @ '': '' @ Error err)), w4)
                 | (None, w4) \<Rightarrow> (None, w4))))"

text \<open>
  The loop itself, over the lines the scanner delivers. \<open>lineNumber\<close> is the counter
  before the iteration.
\<close>

fun scanLoop ::
  "'fs platform \<Rightarrow> bool \<Rightarrow> nat \<Rightarrow> string list \<Rightarrow> 'fs world \<Rightarrow> go_error option \<times> 'fs world" where
  "scanLoop P dryRun lineNumber [] w = (None, w)"
| "scanLoop P dryRun lineNumber (line # rest) w =
    (case loopBody P dryRun (Suc lineNumber) line w of
       (Some e, w') \<Rightarrow> (Some e, w')
     | (None, w') \<Rightarrow> scanLoop P dryRun (Suc lineNumber) rest w')"

text \<open>\<open>setupSymlinks\<close> reads a configuration file and creates symlinks.\<close>

definition setupSymlinks ::
  "'fs platform \<Rightarrow> string \<Rightarrow> bool \<Rightarrow> 'fs world \<Rightarrow> go_error option \<times> 'fs world" where
  "setupSymlinks P configFilePath dryRun w =
    (case call_Stat P configFilePath w of
       (err, w1) \<Rightarrow>
         if os_IsNotExist err then
           (Some (fmt_Errorf (''error: Config file not found: '' @ configFilePath)), w1)
         else
           let w2 = (if dryRun then
                       fmt_Printf (''[DRY RUN] Would set up symlinks from config: ''
                                   @ configFilePath @ ''\<newline>'') w1
                     else
                       fmt_Printf (''Setting up symlinks from config: '' @ configFilePath
                                   @ ''\<newline>'') w1)
           in
           (case call_Open P configFilePath w2 of
              (Inl err, w3) \<Rightarrow>
                (Some (fmt_Errorf (''error opening config file: '' @ Error err)), w3)
            | (Inr (lines, scanErr), w3) \<Rightarrow>
                (case scanLoop P dryRun 0 lines w3 of
                   (Some e, w4) \<Rightarrow> (Some e, w4)
                 | (None, w4) \<Rightarrow>
                     (case scanErr of
                        Some err \<Rightarrow>
                          (Some (fmt_Errorf (''error reading config file: '' @ Error err)), w4)
                      | None \<Rightarrow>
                          (None,
                           if dryRun then
                             fmt_Println ''[DRY RUN] Symlink setup complete! (No changes made)'' w4
                           else fmt_Println ''Symlink setup complete!'' w4)))))"

definition getExecutablePath :: "'fs platform \<Rightarrow> 'fs world \<Rightarrow> (go_error + string) \<times> 'fs world" where
  "getExecutablePath P w =
    (case os_Executable P (fs w) of
       Inl err \<Rightarrow> (Inl err, emit Call_Executable w)
     | Inr exe \<Rightarrow>
         (case filepath_EvalSymlinks P (fs w) exe of
            Inl err \<Rightarrow> (Inl err, emit (Call_EvalSymlinks exe) (emit Call_Executable w))
          | Inr realPath \<Rightarrow>
              (Inr (filepath_Dir P realPath),
               emit (Call_EvalSymlinks exe) (emit Call_Executable w))))"

text \<open>
  \<open>flag.PrintDefaults\<close> writes to standard error, one flag at a time in the order of
  their names. Both flags are boolean with default \<open>false\<close>, so no type and no default
  are shown.
\<close>

definition flag_PrintDefaults :: "'fs world \<Rightarrow> 'fs world" where
  "flag_PrintDefaults w =
    emit (Stderr (''  -help\<newline>    '' @ [CHR 0x09] @ ''Show help message\<newline>''))
      (emit (Stderr (''  -dry-run\<newline>    '' @ [CHR 0x09]
                     @ ''Show what would be done without making changes\<newline>'')) w)"

definition showHelp :: "'fs world \<Rightarrow> 'fs world" where
  "showHelp w =
    fold fmt_Println
      [''\<newline>Environment Variable Expansion:'',
       ''  Supports all environment variables in format $VAR or ${VAR}'',
       ''  Examples: $HOME, $USER, $DOTFILES_HOME, ${XDG_CONFIG_HOME}'',
       ''\<newline>Required Environment Variables:'',
       ''  Make sure to set the environment variables used in your config file'',
       ''  Example: export DOTFILES_HOME='' @ [CHR 0x22] @ ''$HOME/dotfiles'' @ [CHR 0x22],
       ''\<newline>Examples:'',
       ''  symlinker                    # Use default config file'',
       ''  symlinker custom.conf        # Use custom config file'',
       ''  symlinker --dry-run          # Preview changes without applying'',
       ''  symlinker --dry-run my.conf  # Preview with custom config'']
      (flag_PrintDefaults
        (fold fmt_Println
           [''Symlink Manager - Create and manage symlinks from configuration files'',
            ''\<newline>Usage:'',
            ''  symlinker [flags] [config-file]'',
            ''\<newline>Flags:'']
           w))"

text \<open>
  The string literal of the first banner line starts with seven bytes that are not
  ASCII (\<open>C3 B0 C5 B8 E2 80 9D\<close> in main.go); they are printed as they are.
\<close>

definition commonVars :: "string list" where
  "commonVars = [''HOME'', ''USER'', ''XDG_CONFIG_HOME'', ''DOTFILES_HOME'', ''TOOLS_DIR'', ''NOTES_DIR'']"

definition printEnvironmentInfo :: "'fs platform \<Rightarrow> bool \<Rightarrow> 'fs world \<Rightarrow> 'fs world" where
  "printEnvironmentInfo P dryRun w =
    (if dryRun then
       fmt_Println (''='' @ replicate 50 (CHR ''=''))
         (fold (\<lambda>varName w'.
                  if os_Getenv P varName \<noteq> [] then
                    fmt_Printf (''  '' @ varName @ '': '' @ os_Getenv P varName @ ''\<newline>'') w'
                  else w')
               commonVars
            (fmt_Printf ''Current environment variables:\<newline>''
              (fmt_Println (''='' @ replicate 50 (CHR ''=''))
                (fmt_Println ([CHR 0xC3, CHR 0xB0, CHR 0xC5, CHR 0xB8, CHR 0xE2, CHR 0x80, CHR 0x9D]
                              @ '' DRY RUN MODE - No changes will be made'') w))))
     else w)"

text \<open>
  \<open>main\<close>, after \<open>flag.Parse\<close>: the two flags and the remaining arguments are given.
  The result is the exit status of the process.
\<close>

record flags =
  flag_dryRun :: bool
  flag_help :: bool
  flag_Args :: "string list"

definition main :: "'fs platform \<Rightarrow> flags \<Rightarrow> 'fs world \<Rightarrow> nat \<times> 'fs world" where
  "main P fl w =
    (if flag_help fl then (0, showHelp w)
     else
       (case getExecutablePath P w of
          (Inl err, w1) \<Rightarrow>
            (1, fmt_Printf (''Error getting executable path: '' @ Error err @ ''\<newline>'') w1)
        | (Inr execDir, w1) \<Rightarrow>
            let defaultConfigFile = filepath_Join P execDir ''symlinker.conf'';
                configFilePath = (if length (flag_Args fl) > 0 then flag_Args fl ! 0
                                  else defaultConfigFile);
                w2 = printEnvironmentInfo P (flag_dryRun fl) w1
            in
            (case setupSymlinks P configFilePath (flag_dryRun fl) w2 of
               (Some err, w3) \<Rightarrow> (1, fmt_Printf (''Error: '' @ Error err @ ''\<newline>'') w3)
             | (None, w3) \<Rightarrow> (0, w3))))"

subsection \<open>Notions the properties are stated with\<close>

text \<open>
  The events that change the file system and the events that write output; every other
  event is a call that only reads.
\<close>

fun mutation :: "event \<Rightarrow> bool" where
  "mutation (Call_MkdirAll p) = True"
| "mutation (Call_RemoveAll p) = True"
| "mutation (Call_Symlink t l) = True"
| "mutation e = False"

fun is_output :: "event \<Rightarrow> bool" where
  "is_output (Stdout s) = True"
| "is_output (Stderr s) = True"
| "is_output e = False"

definition outputs :: "event list \<Rightarrow> event list" where
  "outputs evs = filter is_output evs"

text \<open>The events a run has added to the trace.\<close>

definition new_events :: "'fs world \<Rightarrow> 'fs world \<Rightarrow> event list" where
  "new_events w w' = drop (length (trace w)) (trace w')"

text \<open>
  A step from \<open>w\<close> to \<open>w'\<close> is read-only when the file system is the same and the trace
  has grown by events that are no mutations.
\<close>

definition read_only_step :: "'fs world \<Rightarrow> 'fs world \<Rightarrow> bool" where
  "read_only_step w w' \<longleftrightarrow>
    fs w' = fs w \<and> (\<exists>evs. trace w' = trace w @ evs \<and> list_all (\<lambda>e. \<not> mutation e) evs)"

text \<open>Printing a list of messages, one \<open>Printf\<close> each.\<close>

definition print_all :: "string list \<Rightarrow> 'fs world \<Rightarrow> 'fs world" where
  "print_all msgs w = w\<lparr>trace := trace w @ map Stdout msgs\<rparr>"

text \<open>
  A comment line as the comment pattern sees it: the first character that is not in
  its white-space class is \<open>#\<close>.
\<close>

definition first_non_space_is_hash :: "string \<Rightarrow> bool" where
  "first_non_space_is_hash line \<longleftrightarrow> find (\<lambda>c. \<not> perl_space c) line = Some (CHR ''#'')"

text \<open>
  A comment line when white space is what \<open>strings.Fields\<close> splits at: some
  white-space runes, then \<open>#\<close>.
\<close>

definition comment_only :: "string \<Rightarrow> bool" where
  "comment_only line \<longleftrightarrow>
    (\<exists>rs rest. line = concat rs @ CHR ''#'' # rest \<and> set rs \<subseteq> set white_space_runes)"

text \<open>A line made of white-space runes only (any of those \<open>strings.Fields\<close> knows).\<close>

definition only_white_space :: "string \<Rightarrow> bool" where
  "only_white_space line \<longleftrightarrow> (\<exists>rs. line = concat rs \<and> set rs \<subseteq> set white_space_runes)"

text \<open>
  A data line is a line that is neither empty nor a comment: the lines the parser gets
  to see. A data line is malformed when it has fewer than two fields; it has an empty
  field when one of its first two fields expands to the empty string; otherwise it is
  an entry, with its expanded link path and target path.
\<close>

definition data_line :: "string \<Rightarrow> bool" where
  "data_line line \<longleftrightarrow> line \<noteq> [] \<and> \<not> first_non_space_is_hash line"

definition malformed :: "string \<Rightarrow> bool" where
  "malformed line \<longleftrightarrow> data_line line \<and> length (strings_Fields line) < 2"

definition empty_field :: "'fs platform \<Rightarrow> string \<Rightarrow> bool" where
  "empty_field P line \<longleftrightarrow>
    data_line line \<and> 2 \<le> length (strings_Fields line) \<and>
    (expandPath P (strings_Fields line ! 0) = [] \<or> expandPath P (strings_Fields line ! 1) = [])"

definition entry :: "'fs platform \<Rightarrow> string \<Rightarrow> string \<Rightarrow> string \<Rightarrow> bool" where
  "entry P line link target \<longleftrightarrow>
    data_line line \<and> 2 \<le> length (strings_Fields line) \<and>
    link = expandPath P (strings_Fields line ! 0) \<and>
    target = expandPath P (strings_Fields line ! 1) \<and>
    link \<noteq> [] \<and> target \<noteq> []"

text \<open>
  The warnings for the two kinds of rejected data lines, and what the loop body prints
  for an entry before it touches the file system.
\<close>

definition invalid_line_warning :: "nat \<Rightarrow> string \<Rightarrow> string" where
  "invalid_line_warning n line =
    ''Warning: Invalid line '' @ format_d n @ '' in config file: '' @ line @ ''\<newline>''"

definition invalid_paths_warning :: "nat \<Rightarrow> string \<Rightarrow> string" where
  "invalid_paths_warning n line =
    ''Warning: Invalid paths at line '' @ format_d n @ '' in config file: '' @ line @ ''\<newline>''"

definition announcements :: "'fs platform \<Rightarrow> bool \<Rightarrow> nat \<Rightarrow> string \<Rightarrow> string list" where
  "announcements P dryRun n line =
    (let fields = strings_Fields line;
         link = expandPath P (fields ! 0);
         target = expandPath P (fields ! 1)
     in (if strings_Contains_dollar link \<or> strings_Contains_dollar target
         then [''Warning: Unexpanded environment variables at line '' @ format_d n @ '': ''
               @ line @ ''\<newline>'']
         else [])
        @ (if dryRun
           then [''\<newline>'',
                 ''[DRY RUN] Line '' @ format_d n @ '': '' @ fields ! 0 @ '' -> '' @ fields ! 1
                 @ ''\<newline>'',
                 ''[DRY RUN] Expanded: '' @ link @ '' -> '' @ target @ '' (dir: ''
                 @ filepath_Dir P link @ '')\<newline>'']
           else []))"

text \<open>How the loop body wraps the errors of its two steps.\<close>

definition directory_error :: "string \<Rightarrow> go_error \<Rightarrow> go_error" where
  "directory_error dir err = fmt_Errorf (''error creating directory '' @ dir @ '': '' @ Error err)"

definition symlink_error :: "nat \<Rightarrow> go_error \<Rightarrow> go_error" where
  "symlink_error n err =
    fmt_Errorf (''error creating symlink at line '' @ format_d n @ '': '' @ Error err)"

text \<open>
  The configuration path \<open>main\<close> hands to \<open>setupSymlinks\<close> once the directory of the
  executable is known, and what \<open>main\<close> prints when \<open>setupSymlinks\<close> does not find
  the file.
\<close>

definition config_path :: "'fs platform \<Rightarrow> flags \<Rightarrow> string \<Rightarrow> string" where
  "config_path P fl execDir =
    (case flag_Args fl of [] \<Rightarrow> filepath_Join P execDir ''symlinker.conf'' | a # _ \<Rightarrow> a)"

definition not_found_message :: "string \<Rightarrow> string" where
  "not_found_message path = ''Error: error: Config file not found: '' @ path @ ''\<newline>''"

text \<open>
  One directory-ensure step followed by one link-apply step, whatever the first one
  returns: the world after both.
\<close>

definition ensure_then_apply ::
  "'fs platform \<Rightarrow> bool \<Rightarrow> string \<Rightarrow> string \<Rightarrow> string \<Rightarrow> 'fs world \<Rightarrow> 'fs world" where
  "ensure_then_apply P dryRun dir target link w =
    snd (createSymlink P target link dryRun (snd (ensureDirExists P dir dryRun w)))"

text \<open>
  What a dry run prints before it looks for the configuration file, the world in which
  the scan loop starts, and the last line of a run that went through.
\<close>

definition dry_run_banner :: "'fs platform \<Rightarrow> string list" where
  "dry_run_banner P =
    [[CHR 0xC3, CHR 0xB0, CHR 0xC5, CHR 0xB8, CHR 0xE2, CHR 0x80, CHR 0x9D] @ '' DRY RUN MODE - No changes will be made\<newline>'',
     replicate 51 (CHR ''='') @ ''\<newline>'',
     ''Current environment variables:\<newline>'']
    @ map (\<lambda>v. ''  '' @ v @ '': '' @ os_Getenv P v @ ''\<newline>'')
        (filter (\<lambda>v. os_Getenv P v \<noteq> []) commonVars)
    @ [replicate 51 (CHR ''='') @ ''\<newline>'']"

definition loop_start :: "string \<Rightarrow> bool \<Rightarrow> 'fs world \<Rightarrow> 'fs world" where
  "loop_start path dryRun w =
    emit (Call_Open path)
      (fmt_Printf ((if dryRun then ''[DRY RUN] Would set up symlinks from config: ''
                    else ''Setting up symlinks from config: '') @ path @ ''\<newline>'')
         (emit (Call_Stat path) w))"

definition completion_message :: "bool \<Rightarrow> string" where
  "completion_message dryRun =
    (if dryRun then ''[DRY RUN] Symlink setup complete! (No changes made)\<newline>''
     else ''Symlink setup complete!\<newline>'')"

text \<open>
  The three ways in which the operating system can make an entry fail in apply mode,
  on a file system \<open>f\<close>: the parent directory of the link is reported missing and
  \<open>MkdirAll\<close> fails; something is at the link path and \<open>RemoveAll\<close> fails; \<open>Symlink\<close>
  fails. Each is looked at on the file system the steps before it leave.
\<close>

definition directory_creation_fails :: "'fs platform \<Rightarrow> string \<Rightarrow> 'fs \<Rightarrow> bool" where
  "directory_creation_fails P dir f \<longleftrightarrow>
    os_IsNotExist (os_Stat P f dir) \<and> fst (os_MkdirAll P f dir) \<noteq> None"

definition fs_after_ensure :: "'fs platform \<Rightarrow> string \<Rightarrow> 'fs \<Rightarrow> 'fs" where
  "fs_after_ensure P dir f =
    (if os_IsNotExist (os_Stat P f dir) then snd (os_MkdirAll P f dir) else f)"

definition link_removal_fails :: "'fs platform \<Rightarrow> string \<Rightarrow> 'fs \<Rightarrow> bool" where
  "link_removal_fails P link f \<longleftrightarrow>
    os_Lstat P f link = None \<and> fst (os_RemoveAll P f link) \<noteq> None"

definition fs_after_removal :: "'fs platform \<Rightarrow> string \<Rightarrow> 'fs \<Rightarrow> 'fs" where
  "fs_after_removal P link f =
    (if os_Lstat P f link = None then snd (os_RemoveAll P f link) else f)"

definition link_creation_fails :: "'fs platform \<Rightarrow> string \<Rightarrow> string \<Rightarrow> 'fs \<Rightarrow> bool" where
  "link_creation_fails P target link f \<longleftrightarrow> fst (os_Symlink P f target link) \<noteq> None"

definition entry_fails :: "'fs platform \<Rightarrow> string \<Rightarrow> string \<Rightarrow> 'fs \<Rightarrow> bool" where
  "entry_fails P target link f \<longleftrightarrow>
    directory_creation_fails P (filepath_Dir P link) f
    \<or> link_removal_fails P link (fs_after_ensure P (filepath_Dir P link) f)
    \<or> link_creation_fails P target link
         (fs_after_removal P link (fs_after_ensure P (filepath_Dir P link) f))"


subsection \<open>A small operating system to run the program on\<close>

text \<open>
  An instance of the platform for concrete runs. A file system is a table from paths to
  nodes, a list of paths the user may not create, remove or replace (\<open>denied\<close>) and a
  list of paths that cannot be looked up (\<open>unsearchable\<close>). Paths are compared as they
  are written; only \<open>RemoveAll\<close> looks at what lies below a path.
\<close>

datatype node = RegularFile "string list" | Directory | SymbolicLink string

record demo_fs =
  nodes :: "(string \<times> node) list"
  denied :: "string list"
  unsearchable :: "string list"

fun demo_follow :: "nat \<Rightarrow> (string \<times> node) list \<Rightarrow> string \<Rightarrow> node option" where
  "demo_follow 0 tab p = None"
| "demo_follow (Suc n) tab p =
    (case map_of tab p of
       Some (SymbolicLink t) \<Rightarrow> demo_follow n tab t
     | r \<Rightarrow> r)"

definition demo_Lstat :: "demo_fs \<Rightarrow> string \<Rightarrow> go_error option" where
  "demo_Lstat f p =
    (if p \<in> set (unsearchable f) then Some (GoError False (''lstat '' @ p @ '': permission denied''))
     else if map_of (nodes f) p = None
       then Some (GoError True (''lstat '' @ p @ '': no such file or directory''))
     else None)"

definition demo_Stat :: "demo_fs \<Rightarrow> string \<Rightarrow> go_error option" where
  "demo_Stat f p =
    (if p \<in> set (unsearchable f) then Some (GoError False (''stat '' @ p @ '': permission denied''))
     else if demo_follow 40 (nodes f) p = None
       then Some (GoError True (''stat '' @ p @ '': no such file or directory''))
     else None)"

definition demo_Open :: "demo_fs \<Rightarrow> string \<Rightarrow> go_error + string list \<times> go_error option" where
  "demo_Open f p =
    (if p \<in> set (unsearchable f) then Inl (GoError False (''open '' @ p @ '': permission denied''))
     else
       (case demo_follow 40 (nodes f) p of
          None \<Rightarrow> Inl (GoError True (''open '' @ p @ '': no such file or directory''))
        | Some (RegularFile ls) \<Rightarrow> Inr (ls, None)
        | Some _ \<Rightarrow> Inr ([], Some (GoError False (''read '' @ p @ '': is a directory'')))))"

definition demo_MkdirAll :: "demo_fs \<Rightarrow> string \<Rightarrow> go_error option \<times> demo_fs" where
  "demo_MkdirAll f p =
    (if p \<in> set (denied f) then (Some (GoError False (''mkdir '' @ p @ '': permission denied'')), f)
     else (None, f\<lparr>nodes := (p, Directory) # nodes f\<rparr>))"

definition demo_RemoveAll :: "demo_fs \<Rightarrow> string \<Rightarrow> go_error option \<times> demo_fs" where
  "demo_RemoveAll f p =
    (if p \<in> set (denied f) then (Some (GoError False (''unlinkat '' @ p @ '': permission denied'')), f)
     else (None, f\<lparr>nodes := filter (\<lambda>(q, n). q \<noteq> p \<and> \<not> prefix (p @ ''/'') q) (nodes f)\<rparr>))"

definition demo_Symlink :: "demo_fs \<Rightarrow> string \<Rightarrow> string \<Rightarrow> go_error option \<times> demo_fs" where
  "demo_Symlink f oldname newname =
    (if newname \<in> set (denied f)
       then (Some (GoError False (''symlink '' @ oldname @ '' '' @ newname @ '': permission denied'')), f)
     else if map_of (nodes f) newname \<noteq> None
       then (Some (GoError False (''symlink '' @ oldname @ '' '' @ newname @ '': file exists'')), f)
     else (None, f\<lparr>nodes := (newname, SymbolicLink oldname) # nodes f\<rparr>))"

text \<open>
  Everything before the last slash; on the paths of the examples (absolute, no \<open>.\<close>
  or \<open>..\<close>, no doubled or trailing slash) this is what \<open>filepath.Dir\<close> gives on Unix.
\<close>

definition demo_Dir :: "string \<Rightarrow> string" where
  "demo_Dir p =
    (let d = rev (dropWhile (\<lambda>c. c = CHR ''/'') (dropWhile (\<lambda>c. c \<noteq> CHR ''/'') (rev p))) in
     if d \<noteq> [] then d
     else if CHR ''/'' \<in> set p then ''/'' else ''.'')"

definition demo_Getenv :: "(string \<times> string) list \<Rightarrow> string \<Rightarrow> string" where
  "demo_Getenv env name = (case map_of env name of None \<Rightarrow> [] | Some v \<Rightarrow> v)"

definition demo_platform :: "(string \<times> string) list \<Rightarrow> demo_fs platform" where
  "demo_platform env =
    \<lparr>os_Executable = (\<lambda>f. Inr ''/opt/bin/symlinker''),
     filepath_EvalSymlinks = (\<lambda>f p. Inr p),
     filepath_Dir = demo_Dir,
     filepath_Join = (\<lambda>a b. a @ ''/'' @ b),
     os_Getenv = demo_Getenv env,
     os_Stat = demo_Stat,
     os_Lstat = demo_Lstat,
     os_Open = demo_Open,
     os_MkdirAll = demo_MkdirAll,
     os_RemoveAll = demo_RemoveAll,
     os_Symlink = demo_Symlink\<rparr>"

definition demo_env :: "(string \<times> string) list" where
  "demo_env = [(''HOME'', ''/home/u''), (''TOOLS_DIR'', ''/opt/tools'')]"

definition demo_conf :: "string list" where
  "demo_conf =
    [''# ZSH config'',
     [],
     ''$HOME/.zshrc $TOOLS_DIR/.zshrc'',
     ''$HOME/.config/git/config $TOOLS_DIR/git/.gitconfig'',
     ''$HOME/.vimrc'',
     ''   '',
     ''$UNSET $TOOLS_DIR/x'',
     ''/etc/symlinker/link $TOOLS_DIR/y'',
     ''$HOME/.bashrc $TOOLS_DIR/.bashrc'']"

definition demo_disk :: demo_fs where
  "demo_disk =
    \<lparr>nodes = [(''/'', Directory), (''/home'', Directory), (''/home/u'', Directory),
              (''/home/u/.zshrc'', RegularFile [''old'']),
              (''/etc'', Directory),
              (''/opt'', Directory), (''/opt/bin'', Directory),
              (''/opt/bin/symlinker.conf'', RegularFile demo_conf)],
     denied = [''/etc/symlinker''],
     unsearchable = [''/root/.config'']\<rparr>"

definition demo_world :: "demo_fs world" where
  "demo_world = \<lparr>fs = demo_disk, trace = []\<rparr>"

text \<open>
  The same disk with a working directory and a file the user may not remove.
\<close>

definition work_disk :: demo_fs where
  "work_disk =
    demo_disk\<lparr>nodes := (''.'', Directory) # (''/etc/hosts'', RegularFile [''127.0.0.1 localhost''])
                        # nodes demo_disk,
               denied := ''/etc/hosts'' # denied demo_disk\<rparr>"

definition work_world :: "demo_fs world" where
  "work_world = \<lparr>fs = work_disk, trace = []\<rparr>"

definition demo_dry_run :: flags where
  "demo_dry_run = \<lparr>flag_dryRun = True, flag_help = False, flag_Args = []\<rparr>"

definition demo_apply :: flags where
  "demo_apply = \<lparr>flag_dryRun = False, flag_help = False, flag_Args = []\<rparr>"

definition demo_missing :: flags where
  "demo_missing = \<lparr>flag_dryRun = True, flag_help = False, flag_Args = [''/nope.conf'']\<rparr>"

section \<open>Basic facts\<close>

subsection \<open>The library functions on examples\<close>

lemma Fields_examples:
  "strings_Fields ''$HOME/.zshrc $TOOLS_DIR/.zshrc'' = [''$HOME/.zshrc'', ''$TOOLS_DIR/.zshrc'']"
  "strings_Fields ''  a   b c '' = [''a'', ''b'', ''c'']"
  "strings_Fields (''a'' @ [CHR 0xC2, CHR 0xA0] @ ''b'') = [''a'', ''b'']"
  "strings_Fields [] = []"
  by code_simp+

lemma expandPath_examples:
  "expandPath (demo_platform demo_env) ''$HOME/.zshrc'' = ''/home/u/.zshrc''"
  "expandPath (demo_platform demo_env) ''${TOOLS_DIR}/git'' = ''/opt/tools/git''"
  "expandPath (demo_platform demo_env) ''$UNDEFINED_VAR/.foo'' = ''/.foo''"
  "expandPath (demo_platform demo_env) ''a$'' = ''a$''"
  "expandPath (demo_platform demo_env) ''$/x'' = ''$/x''"
  "expandPath (demo_platform demo_env) ''${}x'' = ''x''"
  by code_simp+

lemma format_d_examples: "format_d 0 = ''0''" "format_d 7 = ''7''" "format_d 120 = ''120''"
  by code_simp+

text \<open>
  The comment pattern and \<open>strings.Fields\<close> do not agree on what white space is: a
  vertical tab or a no-break space before \<open>#\<close> keeps the line from being a comment,
  yet separates fields.
\<close>

lemma comment_after_vertical_tab:
  "\<not> commentRegex_MatchString (CHR 0x0B # ''# a b'')"
  "strings_Fields (CHR 0x0B # ''# a b'') = [''#'', ''a'', ''b'']"
  by code_simp+

subsection \<open>Events and printing\<close>

lemma fs_emit [simp]: "fs (emit e w) = fs w"
  by (simp add: emit_def)

lemma trace_emit [simp]: "trace (emit e w) = trace w @ [e]"
  by (simp add: emit_def)

lemma fs_Printf [simp]: "fs (fmt_Printf s w) = fs w"
  by (simp add: fmt_Printf_def)

lemma trace_Printf [simp]: "trace (fmt_Printf s w) = trace w @ [Stdout s]"
  by (simp add: fmt_Printf_def)

lemma fs_Println [simp]: "fs (fmt_Println s w) = fs w"
  by (simp add: fmt_Println_def)

lemma trace_Println [simp]: "trace (fmt_Println s w) = trace w @ [Stdout (s @ ''\<newline>'')]"
  by (simp add: fmt_Println_def)

lemma fs_print_all [simp]: "fs (print_all msgs w) = fs w"
  by (simp add: print_all_def)

lemma trace_print_all [simp]: "trace (print_all msgs w) = trace w @ map Stdout msgs"
  by (simp add: print_all_def)

lemma print_all_Nil [simp]: "print_all [] w = w"
  by (simp add: print_all_def)

lemma Printf_print_all: "fmt_Printf s (print_all msgs w) = print_all (msgs @ [s]) w"
  by (simp add: print_all_def fmt_Printf_def emit_def)

lemma Printf_as_print_all: "fmt_Printf s w = print_all [s] w"
  by (simp add: print_all_def fmt_Printf_def emit_def)

lemma comment_iff: "commentRegex_MatchString line \<longleftrightarrow> first_non_space_is_hash line"
  by (induction line) (simp_all add: commentRegex_MatchString_def first_non_space_is_hash_def)

lemma data_line_iff: "data_line line \<longleftrightarrow> \<not> (line = [] \<or> commentRegex_MatchString line)"
  by (simp add: data_line_def comment_iff)

lemma loopBody_skip:
  "line = [] \<or> first_non_space_is_hash line \<Longrightarrow> loopBody P dryRun n line w = (None, w)"
  by (simp add: loopBody_def comment_iff)

lemma loopBody_malformed:
  "malformed line \<Longrightarrow>
   loopBody P dryRun n line w = (None, fmt_Printf (invalid_line_warning n line) w)"
  by (simp add: loopBody_def malformed_def data_line_iff invalid_line_warning_def)

lemma loopBody_empty_field:
  "empty_field P line \<Longrightarrow>
   loopBody P dryRun n line w = (None, fmt_Printf (invalid_paths_warning n line) w)"
  by (auto simp add: loopBody_def empty_field_def data_line_iff invalid_paths_warning_def Let_def)

lemma loopBody_entry:
  assumes "entry P line link target"
  shows "loopBody P dryRun n line w =
    (case ensureDirExists P (filepath_Dir P link) dryRun (print_all (announcements P dryRun n line) w) of
       (Some err, w3) \<Rightarrow> (Some (directory_error (filepath_Dir P link) err), w3)
     | (None, w3) \<Rightarrow>
         (case createSymlink P target link dryRun w3 of
            (Some err, w4) \<Rightarrow> (Some (symlink_error n err), w4)
          | (None, w4) \<Rightarrow> (None, w4)))"
proof -
  from assms have d: "line \<noteq> []" "\<not> commentRegex_MatchString line"
    and f: "\<not> length (strings_Fields line) < 2"
    and l: "expandPath P (strings_Fields line ! 0) = link"
    and t: "expandPath P (strings_Fields line ! 1) = target"
    and ne: "link \<noteq> []" "target \<noteq> []"
    by (auto simp add: entry_def data_line_iff)
  have w2: "print_all (announcements P dryRun n line) w =
    (if dryRun then
       fmt_Printf (''[DRY RUN] Expanded: '' @ link @ '' -> '' @ target
                   @ '' (dir: '' @ filepath_Dir P link @ '')\<newline>'')
         (fmt_Printf (''[DRY RUN] Line '' @ format_d n @ '': '' @ strings_Fields line ! 0
                      @ '' -> '' @ strings_Fields line ! 1 @ ''\<newline>'')
            (fmt_Printf ''\<newline>''
              (if strings_Contains_dollar link \<or> strings_Contains_dollar target
               then fmt_Printf (''Warning: Unexpanded environment variables at line ''
                                @ format_d n @ '': '' @ line @ ''\<newline>'') w
               else w)))
     else (if strings_Contains_dollar link \<or> strings_Contains_dollar target
           then fmt_Printf (''Warning: Unexpanded environment variables at line ''
                            @ format_d n @ '': '' @ line @ ''\<newline>'') w
           else w))"
    using l t by (simp add: announcements_def print_all_def fmt_Printf_def emit_def Let_def)
  show ?thesis
    unfolding loopBody_def w2 Let_def l t directory_error_def symlink_error_def
    using d f ne by simp
qed

lemma scanLoop_append:
  "scanLoop P dryRun n (xs @ ys) w =
    (case scanLoop P dryRun n xs w of
       (Some e, w') \<Rightarrow> (Some e, w')
     | (None, w') \<Rightarrow> scanLoop P dryRun (n + length xs) ys w')"
  by (induction xs arbitrary: n w) (auto split: prod.splits option.splits)

subsection \<open>Read-only steps\<close>

lemma read_only_refl: "read_only_step w w"
  by (simp add: read_only_step_def)

lemma read_only_trans: "read_only_step w w1 \<Longrightarrow> read_only_step w1 w2 \<Longrightarrow> read_only_step w w2"
  by (auto simp add: read_only_step_def)

lemma read_only_emit: "\<not> mutation e \<Longrightarrow> read_only_step w (emit e w)"
  by (simp add: read_only_step_def)

lemma read_only_Printf: "read_only_step w (fmt_Printf s w)"
  by (simp add: read_only_step_def)

lemma read_only_Println: "read_only_step w (fmt_Println s w)"
  by (simp add: read_only_step_def)

lemma read_only_print_all: "read_only_step w (print_all msgs w)"
  by (simp add: read_only_step_def list_all_iff)

lemma read_only_then_emit:
  "read_only_step w w1 \<Longrightarrow> \<not> mutation e \<Longrightarrow> read_only_step w (emit e w1)"
  by (auto simp add: read_only_step_def)

lemma read_only_then_Printf: "read_only_step w w1 \<Longrightarrow> read_only_step w (fmt_Printf s w1)"
  by (auto simp add: read_only_step_def)

lemma read_only_then_Println: "read_only_step w w1 \<Longrightarrow> read_only_step w (fmt_Println s w1)"
  by (auto simp add: read_only_step_def)

lemma ensureDirExists_dry:
  "ensureDirExists P path True w =
    (None, if os_IsNotExist (os_Stat P (fs w) path)
           then fmt_Printf (''[DRY RUN] Would create directory: '' @ path @ ''\<newline>'')
                  (emit (Call_Stat path) w)
           else emit (Call_Stat path) w)"
  by (simp add: ensureDirExists_def call_Stat_def)

lemma createSymlink_dry:
  "createSymlink P target link True w =
    (None, fmt_Printf (''[DRY RUN] Would create symlink: '' @ link @ '' -> '' @ target @ ''\<newline>'')
             (if os_Lstat P (fs w) link = None
              then fmt_Printf (''[DRY RUN] Would remove existing: '' @ link @ ''\<newline>'')
                     (emit (Call_Lstat link) w)
              else emit (Call_Lstat link) w))"
  by (simp add: createSymlink_def call_Lstat_def)

lemma ensureDirExists_dry_read_only:
  "read_only_step w (snd (ensureDirExists P path True w))"
  by (simp add: ensureDirExists_dry read_only_emit read_only_then_Printf)

lemma createSymlink_dry_read_only:
  "read_only_step w (snd (createSymlink P target link True w))"
  by (simp add: createSymlink_dry read_only_emit read_only_then_Printf)

lemma loopBody_cases:
  "line = [] \<or> first_non_space_is_hash line \<or> malformed line \<or> empty_field P line
   \<or> (\<exists>link target. entry P line link target)"
  by (auto simp add: malformed_def empty_field_def entry_def data_line_def)

lemma loopBody_dry:
  "fst (loopBody P True n line w) = None \<and> read_only_step w (snd (loopBody P True n line w))"
proof -
  consider "line = [] \<or> first_non_space_is_hash line" | "malformed line" | "empty_field P line"
    | link target where "entry P line link target"
    using loopBody_cases by blast
  then show ?thesis
  proof cases
    case 1
    then show ?thesis by (simp add: loopBody_skip read_only_refl)
  next
    case 2
    then show ?thesis by (simp add: loopBody_malformed read_only_Printf)
  next
    case 3
    then show ?thesis by (simp add: loopBody_empty_field read_only_Printf)
  next
    case 4
    let ?w0 = "print_all (announcements P True n line) w"
    let ?w3 = "snd (ensureDirExists P (filepath_Dir P link) True ?w0)"
    have e: "ensureDirExists P (filepath_Dir P link) True ?w0 = (None, ?w3)"
      by (simp add: ensureDirExists_dry)
    have c: "createSymlink P target link True ?w3 = (None, snd (createSymlink P target link True ?w3))"
      by (simp add: createSymlink_dry)
    have body: "loopBody P True n line w = (None, snd (createSymlink P target link True ?w3))"
      by (subst loopBody_entry [OF 4], subst e, simp, subst c, simp)
    have "read_only_step w ?w0" by (rule read_only_print_all)
    moreover have "read_only_step ?w0 ?w3" by (rule ensureDirExists_dry_read_only)
    moreover have "read_only_step ?w3 (snd (createSymlink P target link True ?w3))"
      by (rule createSymlink_dry_read_only)
    ultimately have "read_only_step w (snd (createSymlink P target link True ?w3))"
      by (blast intro: read_only_trans)
    with body show ?thesis by simp
  qed
qed

lemma scanLoop_dry:
  "fst (scanLoop P True n lines w) = None \<and> read_only_step w (snd (scanLoop P True n lines w))"
proof (induction lines arbitrary: n w)
  case Nil
  show ?case by (simp add: read_only_refl)
next
  case (Cons line rest)
  obtain w1 where b: "loopBody P True (Suc n) line w = (None, w1)" and r: "read_only_step w w1"
    using loopBody_dry [of P "Suc n" line w] by (cases "loopBody P True (Suc n) line w") auto
  from Cons.IH [of "Suc n" w1] r b show ?case
    by (auto intro: read_only_trans)
qed

subsection \<open>The driver\<close>

lemma fold_env_print:
  "fold (\<lambda>v w'. if g v \<noteq> [] then fmt_Printf (f v) w' else w') vs (print_all ms w)
   = print_all (ms @ map f (filter (\<lambda>v. g v \<noteq> []) vs)) w"
  by (induction vs arbitrary: ms) (simp_all add: Printf_print_all)

lemma printEnvironmentInfo_eq:
  "printEnvironmentInfo P dryRun w = print_all (if dryRun then dry_run_banner P else []) w"
proof (cases dryRun)
  case False
  then show ?thesis by (simp add: printEnvironmentInfo_def)
next
  case True
  have start: "fmt_Printf ''Current environment variables:\<newline>''
      (fmt_Println (''='' @ replicate 50 (CHR ''=''))
        (fmt_Println ([CHR 0xC3, CHR 0xB0, CHR 0xC5, CHR 0xB8, CHR 0xE2, CHR 0x80, CHR 0x9D]
                      @ '' DRY RUN MODE - No changes will be made'') w))
    = print_all [[CHR 0xC3, CHR 0xB0, CHR 0xC5, CHR 0xB8, CHR 0xE2, CHR 0x80, CHR 0x9D] @ '' DRY RUN MODE - No changes will be made\<newline>'',
     replicate 51 (CHR ''='') @ ''\<newline>'',
     ''Current environment variables:\<newline>''] w"
    by (simp add: print_all_def fmt_Printf_def fmt_Println_def emit_def eval_nat_numeral)
  have "printEnvironmentInfo P True w =
    fmt_Println (''='' @ replicate 50 (CHR ''=''))
      (print_all ([[CHR 0xC3, CHR 0xB0, CHR 0xC5, CHR 0xB8, CHR 0xE2, CHR 0x80, CHR 0x9D] @ '' DRY RUN MODE - No changes will be made\<newline>'',
     replicate 51 (CHR ''='') @ ''\<newline>'',
     ''Current environment variables:\<newline>''] @ map (\<lambda>v. ''  '' @ v @ '': '' @ os_Getenv P v @ ''\<newline>'')
        (filter (\<lambda>v. os_Getenv P v \<noteq> []) commonVars)) w)"
    unfolding printEnvironmentInfo_def start fold_env_print by simp
  also have "\<dots> = print_all (dry_run_banner P) w"
    by (simp add: dry_run_banner_def print_all_def fmt_Println_def emit_def eval_nat_numeral)
  finally show ?thesis using True by simp
qed

lemma fold_Println: "fold fmt_Println ss w = print_all (map (\<lambda>s. s @ ''\<newline>'') ss) w"
proof (induction ss arbitrary: w)
  case Nil
  show ?case by simp
next
  case (Cons s ss)
  have "print_all ms (fmt_Println s w) = print_all ((s @ ''\<newline>'') # ms) w" for ms
    by (simp add: print_all_def fmt_Println_def emit_def)
  then show ?case by (simp add: Cons.IH)
qed

lemma showHelp_read_only: "read_only_step w (showHelp w)"
proof -
  have "read_only_step w (flag_PrintDefaults (print_all ms w))" for ms
    unfolding flag_PrintDefaults_def
    by (intro read_only_then_emit read_only_print_all) simp_all
  then show ?thesis
    unfolding showHelp_def fold_Println
    by (blast intro: read_only_trans read_only_print_all)
qed

lemma getExecutablePath_cases:
  obtains err where "getExecutablePath P w = (Inl err, emit Call_Executable w)"
  | err exe where "getExecutablePath P w = (Inl err, emit (Call_EvalSymlinks exe) (emit Call_Executable w))"
  | realPath exe where "getExecutablePath P w =
        (Inr (filepath_Dir P realPath), emit (Call_EvalSymlinks exe) (emit Call_Executable w))"
proof (cases "os_Executable P (fs w)")
  case (Inl err)
  then have "getExecutablePath P w = (Inl err, emit Call_Executable w)"
    by (simp add: getExecutablePath_def)
  then show ?thesis by (rule that(1))
next
  case (Inr exe)
  show ?thesis
  proof (cases "filepath_EvalSymlinks P (fs w) exe")
    case (Inl err)
    with Inr have "getExecutablePath P w =
        (Inl err, emit (Call_EvalSymlinks exe) (emit Call_Executable w))"
      by (simp add: getExecutablePath_def)
    then show ?thesis by (rule that(2))
  next
    case (Inr realPath)
    with \<open>os_Executable P (fs w) = Inr exe\<close> have "getExecutablePath P w =
        (Inr (filepath_Dir P realPath), emit (Call_EvalSymlinks exe) (emit Call_Executable w))"
      by (simp add: getExecutablePath_def)
    then show ?thesis by (rule that(3))
  qed
qed

lemma getExecutablePath_read_only: "read_only_step w (snd (getExecutablePath P w))"
  by (rule getExecutablePath_cases [of P w]) (auto intro!: read_only_emit read_only_then_emit)

lemma setupSymlinks_not_found:
  assumes "os_IsNotExist (os_Stat P (fs w) path)"
  shows "setupSymlinks P path dryRun w =
    (Some (fmt_Errorf (''error: Config file not found: '' @ path)), emit (Call_Stat path) w)"
  using assms by (simp add: setupSymlinks_def call_Stat_def)

lemma setupSymlinks_open_failed:
  assumes "\<not> os_IsNotExist (os_Stat P (fs w) path)" and "os_Open P (fs w) path = Inl err"
  shows "setupSymlinks P path dryRun w =
    (Some (fmt_Errorf (''error opening config file: '' @ Error err)), loop_start path dryRun w)"
  using assms by (simp add: setupSymlinks_def call_Stat_def call_Open_def loop_start_def)

lemma setupSymlinks_scanned:
  assumes "\<not> os_IsNotExist (os_Stat P (fs w) path)"
      and "os_Open P (fs w) path = Inr (lines, scanErr)"
  shows "setupSymlinks P path dryRun w =
    (case scanLoop P dryRun 0 lines (loop_start path dryRun w) of
       (Some e, w4) \<Rightarrow> (Some e, w4)
     | (None, w4) \<Rightarrow>
         (case scanErr of
            Some err \<Rightarrow> (Some (fmt_Errorf (''error reading config file: '' @ Error err)), w4)
          | None \<Rightarrow> (None, fmt_Printf (completion_message dryRun) w4)))"
proof -
  have w3: "emit (Call_Open path)
      (if dryRun then fmt_Printf (''[DRY RUN] Would set up symlinks from config: '' @ path @ ''\<newline>'')
                        (emit (Call_Stat path) w)
       else fmt_Printf (''Setting up symlinks from config: '' @ path @ ''\<newline>'')
              (emit (Call_Stat path) w)) = loop_start path dryRun w"
    by (simp add: loop_start_def)
  have fin: "(if dryRun then fmt_Println ''[DRY RUN] Symlink setup complete! (No changes made)'' w4
              else fmt_Println ''Symlink setup complete!'' w4) = fmt_Printf (completion_message dryRun) w4"
    for w4 :: "'a world"
    by (simp add: completion_message_def fmt_Println_def fmt_Printf_def)
  show ?thesis
    using assms
    unfolding setupSymlinks_def call_Stat_def call_Open_def Let_def fin
    by (cases dryRun) (simp_all add: loop_start_def)
qed

lemma read_only_loop_start: "read_only_step w (loop_start path dryRun w)"
  unfolding loop_start_def
  by (intro read_only_then_emit read_only_then_Printf read_only_emit) simp_all

lemma setupSymlinks_dry_read_only:
  "read_only_step w (snd (setupSymlinks P path True w))"
proof (cases "os_IsNotExist (os_Stat P (fs w) path)")
  case True
  then show ?thesis by (simp add: setupSymlinks_not_found read_only_emit)
next
  case False
  show ?thesis
  proof (cases "os_Open P (fs w) path")
    case (Inl err)
    with False show ?thesis by (simp add: setupSymlinks_open_failed read_only_loop_start)
  next
    case (Inr res)
    obtain lines scanErr where res: "res = (lines, scanErr)" by (cases res)
    obtain w4 where loop: "scanLoop P True 0 lines (loop_start path True w) = (None, w4)"
      and r: "read_only_step (loop_start path True w) w4"
      using scanLoop_dry [of P 0 lines "loop_start path True w"]
      by (cases "scanLoop P True 0 lines (loop_start path True w)") auto
    have r4: "read_only_step w w4"
      by (rule read_only_trans [OF read_only_loop_start r])
    show ?thesis
      using r4 by (simp add: setupSymlinks_scanned [OF False Inr [unfolded res]] loop
          read_only_then_Printf split: option.splits)
  qed
qed

lemma config_path_eq:
  "(if length (flag_Args fl) > 0 then flag_Args fl ! 0 else filepath_Join P execDir ''symlinker.conf'')
   = config_path P fl execDir"
  by (cases "flag_Args fl") (simp_all add: config_path_def)

lemma main_help: "flag_help fl \<Longrightarrow> main P fl w = (0, showHelp w)"
  by (simp add: main_def)

lemma main_no_executable:
  assumes "\<not> flag_help fl" and "getExecutablePath P w = (Inl err, w1)"
  shows "main P fl w = (1, fmt_Printf (''Error getting executable path: '' @ Error err @ ''\<newline>'') w1)"
  using assms by (simp add: main_def)

lemma main_run:
  assumes "\<not> flag_help fl" and "getExecutablePath P w = (Inr execDir, w1)"
  shows "main P fl w =
    (case setupSymlinks P (config_path P fl execDir) (flag_dryRun fl)
            (print_all (if flag_dryRun fl then dry_run_banner P else []) w1) of
       (Some err, w3) \<Rightarrow> (1, fmt_Printf (''Error: '' @ Error err @ ''\<newline>'') w3)
     | (None, w3) \<Rightarrow> (0, w3))"
  using assms
  unfolding main_def Let_def config_path_eq printEnvironmentInfo_eq
  by simp

lemma main_dry_read_only:
  assumes "flag_dryRun fl"
  shows "read_only_step w (snd (main P fl w))"
proof (cases "flag_help fl")
  case True
  then show ?thesis by (simp add: main_help showHelp_read_only)
next
  case False
  obtain r w1 where g: "getExecutablePath P w = (r, w1)" by (cases "getExecutablePath P w")
  have r1: "read_only_step w w1"
    using getExecutablePath_read_only [of w P] g by simp
  show ?thesis
  proof (cases r)
    case (Inl err)
    with False g r1 show ?thesis by (simp add: main_no_executable read_only_then_Printf)
  next
    case (Inr execDir)
    let ?w2 = "print_all (dry_run_banner P) w1"
    obtain e w3 where s: "setupSymlinks P (config_path P fl execDir) True ?w2 = (e, w3)"
      by (cases "setupSymlinks P (config_path P fl execDir) True ?w2")
    have "read_only_step ?w2 w3"
      using setupSymlinks_dry_read_only [of ?w2 P "config_path P fl execDir"] s by simp
    with r1 have r3: "read_only_step w w3"
      by (blast intro: read_only_trans read_only_print_all)
    show ?thesis
      using r3 assms s
      by (simp add: main_run [OF False g [unfolded Inr]] read_only_then_Printf split: option.splits)
  qed
qed

subsection \<open>White space\<close>

lemma runes_prefix_free:
  "list_all (\<lambda>a. list_all (\<lambda>b. prefix a b \<longrightarrow> a = b) white_space_runes) white_space_runes"
  by code_simp

lemma runes_plain: "list_all (\<lambda>r. r \<noteq> [] \<and> CHR ''#'' \<notin> set r) white_space_runes"
  by code_simp

lemma find_unique:
  assumes "r \<in> set xs" and "P r" and "\<forall>x\<in>set xs. P x \<longrightarrow> x = r"
  shows "find P xs = Some r"
  using assms
proof (induction xs)
  case Nil
  then show ?case by simp
next
  case (Cons a xs)
  have "a \<in> set (a # xs)" by simp
  from bspec [OF Cons.prems(3) this] have a: "P a \<longrightarrow> a = r" .
  have rest: "\<forall>x\<in>set xs. P x \<longrightarrow> x = r"
  proof
    fix x
    assume "x \<in> set xs"
    then have "x \<in> set (a # xs)" by simp
    from bspec [OF Cons.prems(3) this] show "P x \<longrightarrow> x = r" .
  qed
  show ?case
  proof (cases "P a")
    case True
    with a have "a = r" by blast
    with True show ?thesis by simp
  next
    case False
    with Cons.prems(1,2) have "r \<in> set xs" by auto
    from Cons.IH [OF this Cons.prems(2) rest] False show ?thesis by simp
  qed
qed

lemma space_width_rune:
  assumes "r \<in> set white_space_runes"
  shows "space_width (r @ s) = length r"
proof -
  have "find (\<lambda>r'. prefix r' (r @ s)) white_space_runes = Some r"
  proof (rule find_unique [OF assms])
    show "prefix r (r @ s)" by simp
  next
    have free: "\<forall>a\<in>set white_space_runes. \<forall>b\<in>set white_space_runes. prefix a b \<longrightarrow> a = b"
      using runes_prefix_free by (simp only: list_all_iff)
    show "\<forall>x\<in>set white_space_runes. prefix x (r @ s) \<longrightarrow> x = r"
    proof (intro ballI impI)
      fix x
      assume x: "x \<in> set white_space_runes" and "prefix x (r @ s)"
      then have "prefix x r \<or> prefix r x"
        using prefix_same_cases [of x "r @ s" r] by auto
      with free x assms show "x = r" by blast
    qed
  qed
  then show ?thesis by (simp add: space_width_def)
qed

lemma rune_not_empty: "r \<in> set white_space_runes \<Longrightarrow> r \<noteq> []"
  using runes_plain by (auto simp add: list_all_iff)

lemma rune_no_hash: "r \<in> set white_space_runes \<Longrightarrow> CHR ''#'' \<notin> set r"
  using runes_plain by (auto simp add: list_all_iff)

lemma fields_from_skip_rune:
  assumes "r \<in> set white_space_runes"
  shows "fields_from [] (r @ s) = fields_from [] s"
proof -
  obtain c cs where r: "r = c # cs"
    using rune_not_empty [OF assms] by (cases r) auto
  have w: "space_width (c # cs @ s) = length r"
    using space_width_rune [OF assms, of s] r by simp
  have "fields_from [] (c # cs @ s) = fields_from [] (drop (length r) (c # cs @ s))"
    using w r by (subst fields_from.simps) simp
  then show ?thesis using r by simp
qed

lemma fields_of_white_space:
  "set rs \<subseteq> set white_space_runes \<Longrightarrow> fields_from [] (concat rs) = []"
  by (induction rs) (simp_all add: fields_from_skip_rune)

lemma hash_in_comment: "first_non_space_is_hash line \<Longrightarrow> CHR ''#'' \<in> set line"
  by (auto simp add: first_non_space_is_hash_def find_Some_iff)

lemma white_space_is_no_comment:
  assumes "only_white_space line"
  shows "\<not> first_non_space_is_hash line"
proof
  assume "first_non_space_is_hash line"
  then have "CHR ''#'' \<in> set line" by (rule hash_in_comment)
  moreover obtain rs where "line = concat rs" and "set rs \<subseteq> set white_space_runes"
    using assms by (auto simp add: only_white_space_def)
  ultimately show False using rune_no_hash by auto
qed

lemma ensureDirExists_dry_ok: "fst (ensureDirExists P path True w) = None"
  by (simp add: ensureDirExists_dry)

text \<open>A comment in the sense of the comment pattern is one in the wider sense.\<close>

lemma perl_space_rune: "perl_space c \<Longrightarrow> [c] \<in> set white_space_runes"
  by (auto simp add: perl_space_def white_space_runes_def)

lemma narrow_comment_is_comment:
  "first_non_space_is_hash line \<Longrightarrow> comment_only line"
proof (induction line)
  case Nil
  then show ?case by (simp add: first_non_space_is_hash_def)
next
  case (Cons c cs)
  show ?case
  proof (cases "perl_space c")
    case False
    with Cons.prems have "c = CHR ''#''" by (simp add: first_non_space_is_hash_def)
    then have "c # cs = concat [] @ CHR ''#'' # cs \<and> set [] \<subseteq> set white_space_runes" by simp
    then show ?thesis unfolding comment_only_def by blast
  next
    case True
    with Cons.prems have "first_non_space_is_hash cs" by (simp add: first_non_space_is_hash_def)
    then obtain rs rest where r: "cs = concat rs @ CHR ''#'' # rest" "set rs \<subseteq> set white_space_runes"
      using Cons.IH by (auto simp add: comment_only_def)
    have "c # cs = concat ([c] # rs) @ CHR ''#'' # rest \<and> set ([c] # rs) \<subseteq> set white_space_runes"
      using r perl_space_rune [OF True] by simp
    then show ?thesis unfolding comment_only_def by blast
  qed
qed

subsection \<open>Output\<close>

lemma outputs_append [simp]: "outputs (xs @ ys) = outputs xs @ outputs ys"
  by (simp add: outputs_def)

lemma outputs_Stdout [simp]: "outputs (map Stdout ms) = map Stdout ms"
  by (induction ms) (simp_all add: outputs_def)

lemma outputs_Cons [simp]: "outputs (e # evs) = (if is_output e then e # outputs evs else outputs evs)"
  by (simp add: outputs_def)

lemma outputs_Nil [simp]: "outputs [] = []"
  by (simp add: outputs_def)

lemma new_events_append: "trace w' = trace w @ evs \<Longrightarrow> new_events w w' = evs"
  by (simp add: new_events_def)

subsection \<open>Failing steps in apply mode\<close>

lemma ensureDirExists_apply:
  "ensureDirExists P dir False w =
    (if os_IsNotExist (os_Stat P (fs w) dir) then
       (fst (os_MkdirAll P (fs w) dir),
        \<lparr>fs = snd (os_MkdirAll P (fs w) dir),
         trace = trace w @ [Call_Stat dir, Stdout (''Creating directory: '' @ dir @ ''\<newline>''),
                            Call_MkdirAll dir]\<rparr>)
     else (None, emit (Call_Stat dir) w))"
  by (simp add: ensureDirExists_def call_Stat_def call_MkdirAll_def fmt_Printf_def emit_def
      split: prod.splits)

lemma ensureDirExists_apply_fails:
  "fst (ensureDirExists P dir False w) \<noteq> None \<longleftrightarrow> directory_creation_fails P dir (fs w)"
  by (simp add: ensureDirExists_apply directory_creation_fails_def)

lemma ensureDirExists_apply_fs:
  "fs (snd (ensureDirExists P dir False w)) = fs_after_ensure P dir (fs w)"
  by (simp add: ensureDirExists_apply fs_after_ensure_def)

lemma createSymlink_apply_fails:
  "fst (createSymlink P target link False w) \<noteq> None \<longleftrightarrow>
    link_removal_fails P link (fs w)
    \<or> link_creation_fails P target link (fs_after_removal P link (fs w))"
  by (auto simp add: createSymlink_def call_Lstat_def call_RemoveAll_def call_Symlink_def
      link_removal_fails_def link_creation_fails_def fs_after_removal_def
      split: prod.splits option.splits)

lemma loopBody_entry_fails:
  assumes "entry P line link target"
  shows "fst (loopBody P False n line w) \<noteq> None \<longleftrightarrow> entry_fails P target link (fs w)"
proof -
  let ?dir = "filepath_Dir P link"
  let ?w0 = "print_all (announcements P False n line) w"
  obtain r w3 where e: "ensureDirExists P ?dir False ?w0 = (r, w3)"
    by (cases "ensureDirExists P ?dir False ?w0")
  obtain r' w4 where c: "createSymlink P target link False w3 = (r', w4)"
    by (cases "createSymlink P target link False w3")
  have r: "r \<noteq> None \<longleftrightarrow> directory_creation_fails P ?dir (fs w)"
    using ensureDirExists_apply_fails [of P ?dir ?w0] e by simp
  have f3: "fs w3 = fs_after_ensure P ?dir (fs w)"
    using ensureDirExists_apply_fs [of P ?dir ?w0] e by simp
  have r': "r' \<noteq> None \<longleftrightarrow> link_removal_fails P link (fs w3)
      \<or> link_creation_fails P target link (fs_after_removal P link (fs w3))"
    using createSymlink_apply_fails [of P target link w3] c by simp
  have "fst (loopBody P False n line w) \<noteq> None \<longleftrightarrow> r \<noteq> None \<or> r' \<noteq> None"
    by (simp add: loopBody_entry [OF assms] e c split: option.splits)
  also have "\<dots> \<longleftrightarrow> entry_fails P target link (fs w)"
    unfolding r r' f3 entry_fails_def ..
  finally show ?thesis .
qed

text \<open>The calls of \<open>createSymlink\<close> in apply mode, one by one.\<close>

lemma createSymlink_apply_steps:
  "createSymlink P target link False w =
    (if os_Lstat P (fs w) link = None then
       (case os_RemoveAll P (fs w) link of
          (Some e, f1) \<Rightarrow>
            (Some (fmt_Errorf (''error removing existing path: '' @ Error e)),
             \<lparr>fs = f1,
              trace = trace w @ [Call_Lstat link,
                                 Stdout (''Removing existing: '' @ link @ ''\<newline>''),
                                 Call_RemoveAll link]\<rparr>)
        | (None, f1) \<Rightarrow>
            (case os_Symlink P f1 target link of
               (r, f2) \<Rightarrow>
                 (r, \<lparr>fs = f2,
                      trace = trace w @ [Call_Lstat link,
                                         Stdout (''Removing existing: '' @ link @ ''\<newline>''),
                                         Call_RemoveAll link,
                                         Stdout (''Creating symlink: '' @ link @ '' -> '' @ target @ ''\<newline>''),
                                         Call_Symlink target link]\<rparr>)))
     else
       (case os_Symlink P (fs w) target link of
          (r, f2) \<Rightarrow>
            (r, \<lparr>fs = f2,
                 trace = trace w @ [Call_Lstat link,
                                    Stdout (''Creating symlink: '' @ link @ '' -> '' @ target @ ''\<newline>''),
                                    Call_Symlink target link]\<rparr>)))"
  by (simp add: createSymlink_def call_Lstat_def call_RemoveAll_def call_Symlink_def
      fmt_Printf_def emit_def split: prod.splits option.splits)

subsection \<open>Steps of a dry run\<close>



section \<open>The claims\<close>

text \<open>
  Claim C1. In dry-run mode no run mutates the file system, whatever the configuration
  file, the environment and the answers of the operating system are: the state of the
  file system after \<open>main\<close> is the state before it, the trace has only grown, and
  none of the new events is a call of \<open>MkdirAll\<close>, \<open>RemoveAll\<close> or \<open>Symlink\<close>
  (no directory is created, nothing is removed, no symlink is created).
\<close>

theorem dry_run_never_mutates:
  assumes "flag_dryRun fl"
  shows "fs (snd (main P fl w)) = fs w
    \<and> prefix (trace w) (trace (snd (main P fl w)))
    \<and> list_all (\<lambda>e. \<not> mutation e) (new_events w (snd (main P fl w)))"
  using main_dry_read_only [OF assms, of w P]
  by (auto simp add: read_only_step_def new_events_def)

theorem dry_run_never_mutates_witness:
  "flag_dryRun demo_dry_run
   \<and> fs (snd (main (demo_platform demo_env) demo_dry_run demo_world)) = demo_disk
   \<and> list_all (\<lambda>e. \<not> mutation e)
        (trace (snd (main (demo_platform demo_env) demo_dry_run demo_world)))"
proof -
  have h: "flag_dryRun demo_dry_run" by (simp add: demo_dry_run_def)
  from dry_run_never_mutates [OF h, of "demo_platform demo_env" demo_world]
  show ?thesis using h by (simp add: demo_world_def new_events_def)
qed

text \<open>
  Claim C2, as stated: for an entry the loop body runs one directory-ensure step on the
  parent directory of the link path and then one link-apply step. This fails in apply
  mode when the directory cannot be created: the loop body returns after
  \<open>ensureDirExists\<close> and never calls \<open>createSymlink\<close>. In the example below the trace
  ends with the \<open>MkdirAll\<close> call and has no \<open>Lstat\<close> of the link path.
\<close>

theorem one_ensure_one_apply_counterexample:
  "entry (demo_platform demo_env) ''/etc/symlinker/link $TOOLS_DIR/y'' ''/etc/symlinker/link'' ''/opt/tools/y''
   \<and> filepath_Dir (demo_platform demo_env) ''/etc/symlinker/link'' = ''/etc/symlinker''
   \<and> loopBody (demo_platform demo_env) False 8 ''/etc/symlinker/link $TOOLS_DIR/y'' demo_world
       = (Some (GoError False
                 ''error creating directory /etc/symlinker: mkdir /etc/symlinker: permission denied''),
          \<lparr>fs = demo_disk,
           trace = [Call_Stat ''/etc/symlinker'',
                    Stdout ''Creating directory: /etc/symlinker\<newline>'',
                    Call_MkdirAll ''/etc/symlinker'']\<rparr>)
   \<and> snd (loopBody (demo_platform demo_env) False 8 ''/etc/symlinker/link $TOOLS_DIR/y'' demo_world)
       \<noteq> ensure_then_apply (demo_platform demo_env) False ''/etc/symlinker'' ''/opt/tools/y''
            ''/etc/symlinker/link''
            (print_all (announcements (demo_platform demo_env) False 8 ''/etc/symlinker/link $TOOLS_DIR/y'')
               demo_world)"
proof (intro conjI)
  show "entry (demo_platform demo_env) ''/etc/symlinker/link $TOOLS_DIR/y'' ''/etc/symlinker/link'' ''/opt/tools/y''"
    by code_simp
  show "filepath_Dir (demo_platform demo_env) ''/etc/symlinker/link'' = ''/etc/symlinker''"
    by code_simp
  show "loopBody (demo_platform demo_env) False 8 ''/etc/symlinker/link $TOOLS_DIR/y'' demo_world
       = (Some (GoError False
                 ''error creating directory /etc/symlinker: mkdir /etc/symlinker: permission denied''),
          \<lparr>fs = demo_disk,
           trace = [Call_Stat ''/etc/symlinker'',
                    Stdout ''Creating directory: /etc/symlinker\<newline>'',
                    Call_MkdirAll ''/etc/symlinker'']\<rparr>)"
    by code_simp
  show "snd (loopBody (demo_platform demo_env) False 8 ''/etc/symlinker/link $TOOLS_DIR/y'' demo_world)
       \<noteq> ensure_then_apply (demo_platform demo_env) False ''/etc/symlinker'' ''/opt/tools/y''
            ''/etc/symlinker/link''
            (print_all (announcements (demo_platform demo_env) False 8 ''/etc/symlinker/link $TOOLS_DIR/y'')
               demo_world)"
    by code_simp
qed

text \<open>
  Claim C2, amended. For an entry the loop body runs \<open>ensureDirExists\<close> once, on the
  parent directory of the expanded link path, after its announcements. If that step
  returns success, which it always does in dry-run mode, \<open>createSymlink\<close> runs once
  right after it and decides the result. If it returns an error, the loop body returns
  that error, wrapped, in the world \<open>ensureDirExists\<close> left, and there is no link-apply
  step.
\<close>

theorem entry_runs_ensure_then_apply:
  assumes "entry P line link target"
  shows "let dir = filepath_Dir P link;
             w0 = print_all (announcements P dryRun n line) w;
             ensured = ensureDirExists P dir dryRun w0
         in (dryRun \<longrightarrow> fst ensured = None)
          \<and> (fst ensured = None \<longrightarrow>
               snd (loopBody P dryRun n line w) = ensure_then_apply P dryRun dir target link w0
               \<and> fst (loopBody P dryRun n line w)
                   = map_option (symlink_error n) (fst (createSymlink P target link dryRun (snd ensured))))
          \<and> (\<forall>err. fst ensured = Some err \<longrightarrow>
               loopBody P dryRun n line w = (Some (directory_error dir err), snd ensured))"
proof -
  let ?dir = "filepath_Dir P link"
  let ?w0 = "print_all (announcements P dryRun n line) w"
  obtain r w3 where e: "ensureDirExists P ?dir dryRun ?w0 = (r, w3)"
    by (cases "ensureDirExists P ?dir dryRun ?w0")
  obtain r' w4 where c: "createSymlink P target link dryRun w3 = (r', w4)"
    by (cases "createSymlink P target link dryRun w3")
  have dry: "dryRun \<longrightarrow> r = None"
    using e ensureDirExists_dry_ok [of P ?dir ?w0] by auto
  have body: "loopBody P dryRun n line w =
      (case r of Some err \<Rightarrow> (Some (directory_error ?dir err), w3)
       | None \<Rightarrow> (map_option (symlink_error n) r', w4))"
    by (simp add: loopBody_entry [OF assms] e c split: option.splits)
  show ?thesis
    using dry by (simp add: Let_def e c body ensure_then_apply_def ensureDirExists_dry_ok)
qed

theorem entry_runs_ensure_then_apply_witness:
  "entry (demo_platform demo_env) ''$HOME/.zshrc $TOOLS_DIR/.zshrc'' ''/home/u/.zshrc'' ''/opt/tools/.zshrc''
   \<and> snd (loopBody (demo_platform demo_env) False 3 ''$HOME/.zshrc $TOOLS_DIR/.zshrc'' demo_world)
       = ensure_then_apply (demo_platform demo_env) False ''/home/u'' ''/opt/tools/.zshrc'' ''/home/u/.zshrc''
           demo_world
   \<and> fst (loopBody (demo_platform demo_env) False 3 ''$HOME/.zshrc $TOOLS_DIR/.zshrc'' demo_world) = None"
proof -
  have h: "entry (demo_platform demo_env) ''$HOME/.zshrc $TOOLS_DIR/.zshrc''
      ''/home/u/.zshrc'' ''/opt/tools/.zshrc''"
    by code_simp
  have d: "filepath_Dir (demo_platform demo_env) ''/home/u/.zshrc'' = ''/home/u''"
    by code_simp
  have a: "announcements (demo_platform demo_env) False 3 ''$HOME/.zshrc $TOOLS_DIR/.zshrc'' = []"
    by code_simp
  have e: "fst (ensureDirExists (demo_platform demo_env) ''/home/u'' False demo_world) = None"
    by code_simp
  have c: "fst (createSymlink (demo_platform demo_env) ''/opt/tools/.zshrc'' ''/home/u/.zshrc'' False
      (snd (ensureDirExists (demo_platform demo_env) ''/home/u'' False demo_world))) = None"
    by code_simp
  from entry_runs_ensure_then_apply [OF h, of False 3 demo_world]
  show ?thesis using h by (simp add: Let_def d a e c)
qed

text \<open>
  Claim C3, as stated: when the configuration path does not exist, the "config file not
  found" message comes before any other output. This fails in dry-run mode, where
  \<open>printEnvironmentInfo\<close> has printed its banner before \<open>setupSymlinks\<close> looks for
  the file: the first output of the run below is the banner line.
\<close>

theorem not_found_first_output_counterexample:
  "os_IsNotExist (os_Stat (demo_platform demo_env) (fs demo_world) ''/nope.conf'')
   \<and> \<not> flag_help demo_missing
   \<and> fst (main (demo_platform demo_env) demo_missing demo_world) = 1
   \<and> hd (outputs (new_events demo_world (snd (main (demo_platform demo_env) demo_missing demo_world))))
       = Stdout ([CHR 0xC3, CHR 0xB0, CHR 0xC5, CHR 0xB8, CHR 0xE2, CHR 0x80, CHR 0x9D] @ '' DRY RUN MODE - No changes will be made\<newline>'')
   \<and> hd (outputs (new_events demo_world (snd (main (demo_platform demo_env) demo_missing demo_world))))
       \<noteq> Stdout (not_found_message ''/nope.conf'')"
proof (intro conjI)
  show "os_IsNotExist (os_Stat (demo_platform demo_env) (fs demo_world) ''/nope.conf'')"
    by code_simp
  show "\<not> flag_help demo_missing"
    by code_simp
  show "fst (main (demo_platform demo_env) demo_missing demo_world) = 1"
    by code_simp
  show "hd (outputs (new_events demo_world (snd (main (demo_platform demo_env) demo_missing demo_world))))
       = Stdout ([CHR 0xC3, CHR 0xB0, CHR 0xC5, CHR 0xB8, CHR 0xE2, CHR 0x80, CHR 0x9D] @ '' DRY RUN MODE - No changes will be made\<newline>'')"
    by code_simp
  show "hd (outputs (new_events demo_world (snd (main (demo_platform demo_env) demo_missing demo_world))))
       \<noteq> Stdout (not_found_message ''/nope.conf'')"
    by code_simp
qed

text \<open>
  Claim C3, amended. In a run without \<open>--help\<close> in which the directory of the
  executable is found and \<open>Stat\<close> reports the configuration path as not existing,
  the process exits with status 1 and leaves the file system alone; its output is, in
  apply mode, the "config file not found" message and nothing else, and in dry-run mode
  the banner with the environment listing followed by that message.
\<close>

theorem config_not_found_is_fatal:
  assumes "\<not> flag_help fl"
      and "fst (getExecutablePath P w) = Inr execDir"
      and "os_IsNotExist (os_Stat P (fs w) (config_path P fl execDir))"
  shows "fst (main P fl w) = 1
    \<and> outputs (new_events w (snd (main P fl w)))
        = map Stdout ((if flag_dryRun fl then dry_run_banner P else [])
                      @ [not_found_message (config_path P fl execDir)])
    \<and> fs (snd (main P fl w)) = fs w"
proof -
  let ?cfg = "config_path P fl execDir"
  let ?banner = "if flag_dryRun fl then dry_run_banner P else []"
  obtain exe where g: "getExecutablePath P w
      = (Inr execDir, emit (Call_EvalSymlinks exe) (emit Call_Executable w))"
    using assms(2) by (rule_tac getExecutablePath_cases [of P w]) auto
  let ?w1 = "emit (Call_EvalSymlinks exe) (emit Call_Executable w)"
  have s: "setupSymlinks P ?cfg (flag_dryRun fl) (print_all ?banner ?w1)
      = (Some (fmt_Errorf (''error: Config file not found: '' @ ?cfg)),
         emit (Call_Stat ?cfg) (print_all ?banner ?w1))"
    by (rule setupSymlinks_not_found) (simp add: assms(3))
  have m: "main P fl w = (1, fmt_Printf (not_found_message ?cfg)
      (emit (Call_Stat ?cfg) (print_all ?banner ?w1)))"
    by (simp add: main_run [OF assms(1) g] s fmt_Errorf_def not_found_message_def)
  have t: "trace (snd (main P fl w)) = trace w @ ([Call_Executable, Call_EvalSymlinks exe]
      @ map Stdout ?banner @ [Call_Stat ?cfg, Stdout (not_found_message ?cfg)])"
    by (simp add: m)
  show ?thesis
    unfolding new_events_append [OF t]
    by (simp add: m)
qed

theorem config_not_found_is_fatal_witness:
  "\<not> flag_help demo_missing
   \<and> fst (getExecutablePath (demo_platform demo_env) demo_world) = Inr ''/opt/bin''
   \<and> os_IsNotExist (os_Stat (demo_platform demo_env) (fs demo_world) ''/nope.conf'')
   \<and> fst (main (demo_platform demo_env) demo_missing demo_world) = 1
   \<and> outputs (new_events demo_world (snd (main (demo_platform demo_env) demo_missing demo_world)))
       = map Stdout (dry_run_banner (demo_platform demo_env) @ [not_found_message ''/nope.conf''])"
proof -
  have h1: "\<not> flag_help demo_missing" by code_simp
  have h2: "fst (getExecutablePath (demo_platform demo_env) demo_world) = Inr ''/opt/bin''"
    by code_simp
  have c: "config_path (demo_platform demo_env) demo_missing ''/opt/bin'' = ''/nope.conf''"
    by code_simp
  have h3: "os_IsNotExist (os_Stat (demo_platform demo_env) (fs demo_world)
      (config_path (demo_platform demo_env) demo_missing ''/opt/bin''))"
    by code_simp
  have d: "flag_dryRun demo_missing" by code_simp
  from config_not_found_is_fatal [OF h1 h2 h3]
  show ?thesis using h1 h2 h3 by (simp add: c d)
qed




text \<open>
  Claim C5. A malformed data line (fewer than two fields) and a data line one of whose
  first two fields expands to the empty string are rejected with a warning and nothing
  else. If the loop gets to such a line after the lines \<open>pre\<close>, it prints one warning
  that carries the line number \<open>length pre + 1\<close> (the first line of the file is line
  1), calls nothing, and goes on with the rest of the file. Data lines are the lines the
  parser sees, that is lines that are neither empty nor comments (claim C4).
\<close>

theorem rejected_line_warns_and_continues:
  assumes "malformed line \<or> empty_field P line"
      and "scanLoop P dryRun 0 pre w = (None, w1)"
  shows "scanLoop P dryRun 0 (pre @ line # rest) w =
      scanLoop P dryRun (Suc (length pre)) rest
        (fmt_Printf (if malformed line then invalid_line_warning (Suc (length pre)) line
                     else invalid_paths_warning (Suc (length pre)) line) w1)
    \<and> loopBody P dryRun (Suc (length pre)) line w1 =
        (None, fmt_Printf (if malformed line then invalid_line_warning (Suc (length pre)) line
                           else invalid_paths_warning (Suc (length pre)) line) w1)"
proof -
  have b: "loopBody P dryRun (Suc (length pre)) line w1 =
        (None, fmt_Printf (if malformed line then invalid_line_warning (Suc (length pre)) line
                           else invalid_paths_warning (Suc (length pre)) line) w1)"
    using assms(1) by (auto simp add: loopBody_malformed loopBody_empty_field)
  show ?thesis
    by (simp add: scanLoop_append assms(2) b)
qed

theorem rejected_line_warns_and_continues_witness:
  "(malformed ''$HOME/.vimrc'' \<or> empty_field (demo_platform demo_env) ''$HOME/.vimrc'')
   \<and> (malformed ''$UNSET $TOOLS_DIR/x'' \<or> empty_field (demo_platform demo_env) ''$UNSET $TOOLS_DIR/x'')
   \<and> scanLoop (demo_platform demo_env) False 0 [''# ZSH config'', []] demo_world = (None, demo_world)
   \<and> scanLoop (demo_platform demo_env) False 0 [''# ZSH config'', [], ''$HOME/.vimrc''] demo_world
       = (None, fmt_Printf ''Warning: Invalid line 3 in config file: $HOME/.vimrc\<newline>'' demo_world)
   \<and> loopBody (demo_platform demo_env) True 1 ''$UNSET $TOOLS_DIR/x'' demo_world
       = (None, fmt_Printf ''Warning: Invalid paths at line 1 in config file: $UNSET $TOOLS_DIR/x\<newline>''
            demo_world)"
proof -
  have m: "malformed ''$HOME/.vimrc''" by code_simp
  have e: "empty_field (demo_platform demo_env) ''$UNSET $TOOLS_DIR/x''" by code_simp
  have ne: "\<not> malformed ''$UNSET $TOOLS_DIR/x''" by code_simp
  have p: "scanLoop (demo_platform demo_env) False 0 [''# ZSH config'', []] demo_world = (None, demo_world)"
    by code_simp
  have p0: "scanLoop (demo_platform demo_env) True 0 [] demo_world = (None, demo_world)"
    by simp
  have n3: "format_d 3 = ''3''" by code_simp
  have n1: "format_d 1 = ''1''" by code_simp
  have n1': "format_d (Suc 0) = ''1''" using n1 by simp
  have n3': "format_d (Suc (Suc (Suc 0))) = ''3''" using n3 by (simp add: eval_nat_numeral)
  from rejected_line_warns_and_continues [OF disjI1 [OF m] p, of "[]"]
    rejected_line_warns_and_continues [OF disjI2 [OF e] p0, of "[]"]
  show ?thesis
    using m e ne p
    by (simp del: scanLoop.simps(2)
        add: invalid_line_warning_def invalid_paths_warning_def n3' n1')
qed

text \<open>
  Claim C6, as stated: in apply mode, for every entry, whatever is at the link path is
  removed and then a symbolic link is created there. This fails when the removal is
  refused: \<open>createSymlink\<close> returns the error of \<open>RemoveAll\<close> (main.go, lines 47 to
  49) and never calls \<open>Symlink\<close>. In the example below \<open>/etc/hosts\<close> exists and may
  not be removed; the entry ends with an error, the file is still there and no link was
  made. (An entry whose directory cannot be created does not get to \<open>createSymlink\<close>
  either.)
\<close>

theorem link_not_created_counterexample:
  "entry (demo_platform demo_env) ''/etc/hosts $TOOLS_DIR/hosts'' ''/etc/hosts'' ''/opt/tools/hosts''
   \<and> os_Lstat (demo_platform demo_env) work_disk ''/etc/hosts'' = None
   \<and> loopBody (demo_platform demo_env) False 1 ''/etc/hosts $TOOLS_DIR/hosts'' work_world
       = (Some (GoError False
            ''error creating symlink at line 1: error removing existing path: unlinkat /etc/hosts: permission denied''),
          \<lparr>fs = work_disk,
           trace = [Call_Stat ''/etc'', Call_Lstat ''/etc/hosts'',
                    Stdout ''Removing existing: /etc/hosts\<newline>'',
                    Call_RemoveAll ''/etc/hosts'']\<rparr>)
   \<and> Call_Symlink ''/opt/tools/hosts'' ''/etc/hosts''
       \<notin> set (trace (snd (loopBody (demo_platform demo_env) False 1 ''/etc/hosts $TOOLS_DIR/hosts''
                             work_world)))
   \<and> map_of (nodes (fs (snd (loopBody (demo_platform demo_env) False 1 ''/etc/hosts $TOOLS_DIR/hosts''
                             work_world)))) ''/etc/hosts''
       = Some (RegularFile [''127.0.0.1 localhost''])"
proof (intro conjI)
  show "entry (demo_platform demo_env) ''/etc/hosts $TOOLS_DIR/hosts'' ''/etc/hosts'' ''/opt/tools/hosts''"
    by code_simp
  show "os_Lstat (demo_platform demo_env) work_disk ''/etc/hosts'' = None"
    by code_simp
  show "loopBody (demo_platform demo_env) False 1 ''/etc/hosts $TOOLS_DIR/hosts'' work_world
       = (Some (GoError False
            ''error creating symlink at line 1: error removing existing path: unlinkat /etc/hosts: permission denied''),
          \<lparr>fs = work_disk,
           trace = [Call_Stat ''/etc'', Call_Lstat ''/etc/hosts'',
                    Stdout ''Removing existing: /etc/hosts\<newline>'',
                    Call_RemoveAll ''/etc/hosts'']\<rparr>)"
    by code_simp
  show "Call_Symlink ''/opt/tools/hosts'' ''/etc/hosts''
       \<notin> set (trace (snd (loopBody (demo_platform demo_env) False 1 ''/etc/hosts $TOOLS_DIR/hosts''
                             work_world)))"
    by code_simp
  show "map_of (nodes (fs (snd (loopBody (demo_platform demo_env) False 1 ''/etc/hosts $TOOLS_DIR/hosts''
                             work_world)))) ''/etc/hosts''
       = Some (RegularFile [''127.0.0.1 localhost''])"
    by code_simp
qed

text \<open>
  Claim C6, amended. In apply mode, for every entry: if the directory-ensure step fails,
  the entry ends there, with no call on the link path. Otherwise \<open>Lstat\<close> (which does
  not follow symbolic links) is asked about the link path. If something is there,
  \<open>RemoveAll\<close> is called on the link path before any link is made, and if it fails the
  entry ends with that error and no link is made. If nothing was there or the removal
  succeeded, \<open>Symlink\<close> from the link path to the target is called, on the file system
  the steps before left, and its result is the result of the entry. These are all the
  calls on the two paths: the target is never looked up, so a dangling link is made like
  any other.
\<close>

theorem apply_entry_replaces_link:
  assumes "entry P line link target"
  shows "let dir = filepath_Dir P link;
             w0 = print_all (announcements P False n line) w;
             w3 = snd (ensureDirExists P dir False w0)
         in (directory_creation_fails P dir (fs w) \<longrightarrow>
               fst (loopBody P False n line w) \<noteq> None
               \<and> snd (loopBody P False n line w) = w3
               \<and> trace w3 = trace w0 @ [Call_Stat dir,
                                         Stdout (''Creating directory: '' @ dir @ ''\<newline>''),
                                         Call_MkdirAll dir])
          \<and> (\<not> directory_creation_fails P dir (fs w) \<longrightarrow>
               loopBody P False n line w =
                 (if os_Lstat P (fs w3) link = None then
                    (case os_RemoveAll P (fs w3) link of
                       (Some e, f1) \<Rightarrow>
                         (Some (symlink_error n
                                  (fmt_Errorf (''error removing existing path: '' @ Error e))),
                          \<lparr>fs = f1,
                           trace = trace w3 @ [Call_Lstat link,
                                               Stdout (''Removing existing: '' @ link @ ''\<newline>''),
                                               Call_RemoveAll link]\<rparr>)
                     | (None, f1) \<Rightarrow>
                         (case os_Symlink P f1 target link of
                            (r, f2) \<Rightarrow>
                              (map_option (symlink_error n) r,
                               \<lparr>fs = f2,
                                trace = trace w3 @ [Call_Lstat link,
                                                    Stdout (''Removing existing: '' @ link @ ''\<newline>''),
                                                    Call_RemoveAll link,
                                                    Stdout (''Creating symlink: '' @ link @ '' -> ''
                                                            @ target @ ''\<newline>''),
                                                    Call_Symlink target link]\<rparr>)))
                  else
                    (case os_Symlink P (fs w3) target link of
                       (r, f2) \<Rightarrow>
                         (map_option (symlink_error n) r,
                          \<lparr>fs = f2,
                           trace = trace w3 @ [Call_Lstat link,
                                               Stdout (''Creating symlink: '' @ link @ '' -> ''
                                                       @ target @ ''\<newline>''),
                                               Call_Symlink target link]\<rparr>))))"
proof -
  let ?dir = "filepath_Dir P link"
  let ?w0 = "print_all (announcements P False n line) w"
  obtain r w3 where e: "ensureDirExists P ?dir False ?w0 = (r, w3)"
    by (cases "ensureDirExists P ?dir False ?w0")
  have w3: "snd (ensureDirExists P ?dir False ?w0) = w3" using e by simp
  have r: "r \<noteq> None \<longleftrightarrow> directory_creation_fails P ?dir (fs w)"
    using ensureDirExists_apply_fails [of P ?dir ?w0] e by simp
  have fails: "fst (loopBody P False n line w) \<noteq> None
      \<and> snd (loopBody P False n line w) = w3
      \<and> trace w3 = trace ?w0 @ [Call_Stat ?dir,
                                Stdout (''Creating directory: '' @ ?dir @ ''\<newline>''),
                                Call_MkdirAll ?dir]"
    if f: "directory_creation_fails P ?dir (fs w)"
  proof -
    from f r obtain err where "r = Some err" by auto
    then have "loopBody P False n line w = (Some (directory_error ?dir err), w3)"
      by (simp add: loopBody_entry [OF assms] e)
    moreover have "trace (snd (ensureDirExists P ?dir False ?w0)) = trace ?w0 @ [Call_Stat ?dir,
                                Stdout (''Creating directory: '' @ ?dir @ ''\<newline>''),
                                Call_MkdirAll ?dir]"
      using f by (simp add: ensureDirExists_apply directory_creation_fails_def)
    ultimately show ?thesis unfolding w3 by simp
  qed
  have ok: "loopBody P False n line w =
      (case createSymlink P target link False w3 of
         (Some err, w4) \<Rightarrow> (Some (symlink_error n err), w4)
       | (None, w4) \<Rightarrow> (None, w4))"
    if "\<not> directory_creation_fails P ?dir (fs w)"
    using that r by (simp add: loopBody_entry [OF assms] e)
  show ?thesis
    unfolding Let_def w3
  proof (intro conjI impI)
    assume "directory_creation_fails P ?dir (fs w)"
    from fails [OF this] show "fst (loopBody P False n line w) \<noteq> None"
      and "snd (loopBody P False n line w) = w3"
      and "trace w3 = trace ?w0 @ [Call_Stat ?dir,
                                Stdout (''Creating directory: '' @ ?dir @ ''\<newline>''),
                                Call_MkdirAll ?dir]"
      by simp_all
  next
    assume "\<not> directory_creation_fails P ?dir (fs w)"
    from ok [OF this] show "loopBody P False n line w =
                 (if os_Lstat P (fs w3) link = None then
                    (case os_RemoveAll P (fs w3) link of
                       (Some e, f1) \<Rightarrow>
                         (Some (symlink_error n
                                  (fmt_Errorf (''error removing existing path: '' @ Error e))),
                          \<lparr>fs = f1,
                           trace = trace w3 @ [Call_Lstat link,
                                               Stdout (''Removing existing: '' @ link @ ''\<newline>''),
                                               Call_RemoveAll link]\<rparr>)
                     | (None, f1) \<Rightarrow>
                         (case os_Symlink P f1 target link of
                            (r, f2) \<Rightarrow>
                              (map_option (symlink_error n) r,
                               \<lparr>fs = f2,
                                trace = trace w3 @ [Call_Lstat link,
                                                    Stdout (''Removing existing: '' @ link @ ''\<newline>''),
                                                    Call_RemoveAll link,
                                                    Stdout (''Creating symlink: '' @ link @ '' -> ''
                                                            @ target @ ''\<newline>''),
                                                    Call_Symlink target link]\<rparr>)))
                  else
                    (case os_Symlink P (fs w3) target link of
                       (r, f2) \<Rightarrow>
                         (map_option (symlink_error n) r,
                          \<lparr>fs = f2,
                           trace = trace w3 @ [Call_Lstat link,
                                               Stdout (''Creating symlink: '' @ link @ '' -> ''
                                                       @ target @ ''\<newline>''),
                                               Call_Symlink target link]\<rparr>)))"
      by (simp add: createSymlink_apply_steps split: prod.splits option.splits)
  qed
qed

theorem apply_entry_replaces_link_witness:
  "entry (demo_platform demo_env) ''$HOME/.zshrc $TOOLS_DIR/.zshrc'' ''/home/u/.zshrc'' ''/opt/tools/.zshrc''
   \<and> \<not> directory_creation_fails (demo_platform demo_env) ''/home/u'' (fs demo_world)
   \<and> os_Lstat (demo_platform demo_env) demo_disk ''/home/u/.zshrc'' = None
   \<and> loopBody (demo_platform demo_env) False 3 ''$HOME/.zshrc $TOOLS_DIR/.zshrc'' demo_world
       = (None,
          \<lparr>fs = demo_disk\<lparr>nodes :=
                  (''/home/u/.zshrc'', SymbolicLink ''/opt/tools/.zshrc'')
                  # filter (\<lambda>(q, n). q \<noteq> ''/home/u/.zshrc'') (nodes demo_disk)\<rparr>,
           trace = [Call_Stat ''/home/u'',
                    Call_Lstat ''/home/u/.zshrc'',
                    Stdout ''Removing existing: /home/u/.zshrc\<newline>'',
                    Call_RemoveAll ''/home/u/.zshrc'',
                    Stdout ''Creating symlink: /home/u/.zshrc -> /opt/tools/.zshrc\<newline>'',
                    Call_Symlink ''/opt/tools/.zshrc'' ''/home/u/.zshrc'']\<rparr>)"
proof -
  let ?P = "demo_platform demo_env"
  have h: "entry ?P ''$HOME/.zshrc $TOOLS_DIR/.zshrc'' ''/home/u/.zshrc'' ''/opt/tools/.zshrc''"
    by code_simp
  have d: "filepath_Dir ?P ''/home/u/.zshrc'' = ''/home/u''" by code_simp
  have nf: "\<not> directory_creation_fails ?P ''/home/u'' (fs demo_world)" by code_simp
  have a: "print_all (announcements ?P False 3 ''$HOME/.zshrc $TOOLS_DIR/.zshrc'') demo_world = demo_world"
    by code_simp
  have w3: "snd (ensureDirExists ?P ''/home/u'' False demo_world)
      = \<lparr>fs = demo_disk, trace = [Call_Stat ''/home/u'']\<rparr>"
    by code_simp
  have l: "os_Lstat ?P demo_disk ''/home/u/.zshrc'' = None"
    by code_simp
  have r: "os_RemoveAll ?P demo_disk ''/home/u/.zshrc''
      = (None, demo_disk\<lparr>nodes := filter (\<lambda>(q, n). q \<noteq> ''/home/u/.zshrc'') (nodes demo_disk)\<rparr>)"
    by code_simp
  have s: "os_Symlink ?P
      (demo_disk\<lparr>nodes := filter (\<lambda>(q, n). q \<noteq> ''/home/u/.zshrc'') (nodes demo_disk)\<rparr>)
      ''/opt/tools/.zshrc'' ''/home/u/.zshrc''
      = (None, demo_disk\<lparr>nodes :=
              (''/home/u/.zshrc'', SymbolicLink ''/opt/tools/.zshrc'')
              # filter (\<lambda>(q, n). q \<noteq> ''/home/u/.zshrc'') (nodes demo_disk)\<rparr>)"
    by code_simp
  from apply_entry_replaces_link [OF h, of 3 demo_world]
  show ?thesis using h nf l by (simp add: Let_def d a w3 r s)
qed

text \<open>
  Claim C7. In apply mode, when the loop has come through the lines \<open>pre\<close> and the
  next line is an entry for which directory creation, removal of what is at the link
  path, or creation of the link fails, the loop body returns an error in the world
  \<open>w6\<close> those steps left, the loop returns it whatever the remaining lines \<open>rest\<close>
  are, and \<open>main\<close> prints the error message in that same world and exits with status
  1: no later line is processed.
\<close>

theorem apply_failure_aborts_run:
  assumes "\<not> flag_help fl" and "\<not> flag_dryRun fl"
      and "getExecutablePath P w = (Inr execDir, w1)"
      and "\<not> os_IsNotExist (os_Stat P (fs w) (config_path P fl execDir))"
      and "os_Open P (fs w) (config_path P fl execDir) = Inr (pre @ line # rest, scanErr)"
      and "scanLoop P False 0 pre (loop_start (config_path P fl execDir) False w1) = (None, w4)"
      and "entry P line link target"
      and "entry_fails P target link (fs w4)"
  shows "\<exists>err w6. loopBody P False (Suc (length pre)) line w4 = (Some err, w6)
    \<and> scanLoop P False 0 (pre @ line # rest) (loop_start (config_path P fl execDir) False w1)
        = (Some err, w6)
    \<and> main P fl w = (1, fmt_Printf (''Error: '' @ Error err @ ''\<newline>'') w6)"
proof -
  let ?cfg = "config_path P fl execDir"
  have f1: "fs w1 = fs w"
    using getExecutablePath_read_only [of w P] assms(3) by (simp add: read_only_step_def)
  obtain r w6 where b: "loopBody P False (Suc (length pre)) line w4 = (r, w6)"
    by (cases "loopBody P False (Suc (length pre)) line w4")
  have "r \<noteq> None"
    using loopBody_entry_fails [OF assms(7), of "Suc (length pre)" w4] assms(8) b by simp
  then obtain err where r: "r = Some err" by auto
  have loop: "scanLoop P False 0 (pre @ line # rest) (loop_start ?cfg False w1) = (Some err, w6)"
    by (simp add: scanLoop_append assms(6) b r)
  have s: "setupSymlinks P ?cfg False w1 = (Some err, w6)"
    using assms(4,5) by (simp add: setupSymlinks_scanned [of P w1 ?cfg _ scanErr] f1 loop)
  have "main P fl w = (1, fmt_Printf (''Error: '' @ Error err @ ''\<newline>'') w6)"
    using assms(2) by (simp add: main_run [OF assms(1,3)] s)
  with b r loop show ?thesis by blast
qed

theorem apply_failure_aborts_run_witness:
  "\<not> flag_help demo_apply \<and> \<not> flag_dryRun demo_apply
   \<and> getExecutablePath (demo_platform demo_env) demo_world
       = (Inr ''/opt/bin'', \<lparr>fs = demo_disk, trace = [Call_Executable, Call_EvalSymlinks ''/opt/bin/symlinker'']\<rparr>)
   \<and> os_Open (demo_platform demo_env) (fs demo_world) ''/opt/bin/symlinker.conf''
       = Inr (take 7 demo_conf @ ''/etc/symlinker/link $TOOLS_DIR/y'' # [''$HOME/.bashrc $TOOLS_DIR/.bashrc''], None)
   \<and> entry (demo_platform demo_env) ''/etc/symlinker/link $TOOLS_DIR/y'' ''/etc/symlinker/link'' ''/opt/tools/y''
   \<and> directory_creation_fails (demo_platform demo_env) ''/etc/symlinker'' demo_disk
   \<and> fst (main (demo_platform demo_env) demo_apply demo_world) = 1"
proof -
  let ?P = "demo_platform demo_env"
  let ?w1 = "\<lparr>fs = demo_disk, trace = [Call_Executable, Call_EvalSymlinks ''/opt/bin/symlinker'']\<rparr>"
  let ?line = "''/etc/symlinker/link $TOOLS_DIR/y''"
  let ?w4 = "snd (scanLoop ?P False 0 (take 7 demo_conf) (loop_start ''/opt/bin/symlinker.conf'' False ?w1))"
  have h1: "\<not> flag_help demo_apply" and h2: "\<not> flag_dryRun demo_apply"
    by (simp_all add: demo_apply_def)
  have h3: "getExecutablePath ?P demo_world = (Inr ''/opt/bin'', ?w1)"
    by code_simp
  have c: "config_path ?P demo_apply ''/opt/bin'' = ''/opt/bin/symlinker.conf''"
    by code_simp
  have h4: "\<not> os_IsNotExist (os_Stat ?P (fs demo_world) (config_path ?P demo_apply ''/opt/bin''))"
    by code_simp
  have o: "os_Open ?P (fs demo_world) ''/opt/bin/symlinker.conf''
      = Inr (take 7 demo_conf @ ?line # [''$HOME/.bashrc $TOOLS_DIR/.bashrc''], None)"
    by code_simp
  have h5: "os_Open ?P (fs demo_world) (config_path ?P demo_apply ''/opt/bin'')
      = Inr (take 7 demo_conf @ ?line # [''$HOME/.bashrc $TOOLS_DIR/.bashrc''], None)"
    using o c by simp
  have "fst (scanLoop ?P False 0 (take 7 demo_conf) (loop_start ''/opt/bin/symlinker.conf'' False ?w1)) = None"
    by code_simp
  then have h6: "scanLoop ?P False 0 (take 7 demo_conf)
      (loop_start (config_path ?P demo_apply ''/opt/bin'') False ?w1) = (None, ?w4)"
    unfolding c by (metis prod.collapse)
  have h7: "entry ?P ?line ''/etc/symlinker/link'' ''/opt/tools/y''"
    by code_simp
  have d: "directory_creation_fails ?P ''/etc/symlinker'' demo_disk"
    by code_simp
  have h8: "entry_fails ?P ''/opt/tools/y'' ''/etc/symlinker/link'' (fs ?w4)"
    by code_simp
  from apply_failure_aborts_run [OF h1 h2 h3 h4 h5 h6 h7 h8]
  have "fst (main ?P demo_apply demo_world) = 1" by auto
  with h1 h2 h3 o h7 d show ?thesis by simp
qed



text \<open>
  Claim C9. A line that is not empty but consists of white space only (any sequence of
  the runes \<open>strings.Fields\<close> splits at) is not skipped as a blank line: it has no
  fields, is not a comment, and the loop body prints the invalid-line warning with the
  line number, which changes the world.
\<close>

theorem white_space_line_is_warned:
  assumes "line \<noteq> []" and "only_white_space line"
  shows "strings_Fields line = []
    \<and> malformed line
    \<and> loopBody P dryRun n line w = (None, fmt_Printf (invalid_line_warning n line) w)
    \<and> loopBody P dryRun n line w \<noteq> (None, w)"
proof -
  obtain rs where "line = concat rs" and "set rs \<subseteq> set white_space_runes"
    using assms(2) by (auto simp add: only_white_space_def)
  then have f: "strings_Fields line = []"
    by (simp add: strings_Fields_def fields_of_white_space)
  have m: "malformed line"
    using assms(1) f white_space_is_no_comment [OF assms(2)]
    by (simp add: malformed_def data_line_def)
  have "fmt_Printf s w \<noteq> w" for s
  proof
    assume "fmt_Printf s w = w"
    then have "trace (fmt_Printf s w) = trace w" by simp
    then show False by simp
  qed
  with f m show ?thesis by (simp add: loopBody_malformed)
qed

theorem white_space_line_is_warned_witness:
  "[CHR 0x20, CHR 0x09, CHR 0xC2, CHR 0xA0] \<noteq> []
   \<and> only_white_space [CHR 0x20, CHR 0x09, CHR 0xC2, CHR 0xA0]
   \<and> loopBody (demo_platform demo_env) True 6 [CHR 0x20, CHR 0x09, CHR 0xC2, CHR 0xA0] demo_world
      = (None, fmt_Printf (''Warning: Invalid line 6 in config file: ''
                           @ [CHR 0x20, CHR 0x09, CHR 0xC2, CHR 0xA0] @ ''\<newline>'') demo_world)"
proof -
  have h1: "[CHR 0x20, CHR 0x09, CHR 0xC2, CHR 0xA0] \<noteq> []" by simp
  have "[CHR 0x20, CHR 0x09, CHR 0xC2, CHR 0xA0] = concat [[CHR 0x20], [CHR 0x09], [CHR 0xC2, CHR 0xA0]]
      \<and> set [[CHR 0x20], [CHR 0x09], [CHR 0xC2, CHR 0xA0]] \<subseteq> set white_space_runes"
    by (simp add: white_space_runes_def)
  then have h2: "only_white_space [CHR 0x20, CHR 0x09, CHR 0xC2, CHR 0xA0]"
    unfolding only_white_space_def by (rule exI)
  have n: "format_d 6 = ''6''" by code_simp
  from white_space_line_is_warned [OF h1 h2, of "demo_platform demo_env" True 6 demo_world]
  show ?thesis using h1 h2 by (simp add: invalid_line_warning_def n)
qed

text \<open>
  Claim C10. When \<open>os.Stat\<close> on the parent directory of an entry's link path fails
  with an error that is not a not-exist error, \<open>ensureDirExists\<close> returns success
  and does nothing but that call: it prints nothing, creates nothing and drops the
  error. The loop body then goes straight on to \<open>createSymlink\<close>.
\<close>

theorem stat_error_is_not_reported:
  assumes "entry P line link target"
      and "os_Stat P (fs w) (filepath_Dir P link) = Some e"
      and "\<not> not_exist e"
  shows "ensureDirExists P (filepath_Dir P link) dryRun w = (None, emit (Call_Stat (filepath_Dir P link)) w)
    \<and> loopBody P dryRun n line w =
        (case createSymlink P target link dryRun
                (emit (Call_Stat (filepath_Dir P link)) (print_all (announcements P dryRun n line) w)) of
           (Some err, w4) \<Rightarrow> (Some (symlink_error n err), w4)
         | (None, w4) \<Rightarrow> (None, w4))"
proof -
  have "ensureDirExists P (filepath_Dir P link) dryRun w0 = (None, emit (Call_Stat (filepath_Dir P link)) w0)"
    if "fs w0 = fs w" for w0
    using assms(2,3) that by (simp add: ensureDirExists_def call_Stat_def)
  then show ?thesis
    by (simp add: loopBody_entry [OF assms(1)])
qed

theorem stat_error_is_not_reported_witness:
  "entry (demo_platform demo_env) ''/root/.config/nvim $TOOLS_DIR/nvim''
     ''/root/.config/nvim'' ''/opt/tools/nvim''
   \<and> os_Stat (demo_platform demo_env) (fs demo_world) ''/root/.config''
       = Some (GoError False ''stat /root/.config: permission denied'')
   \<and> ensureDirExists (demo_platform demo_env) ''/root/.config'' False demo_world
       = (None, emit (Call_Stat ''/root/.config'') demo_world)"
proof -
  have d: "filepath_Dir (demo_platform demo_env) ''/root/.config/nvim'' = ''/root/.config''"
    by code_simp
  have h1: "entry (demo_platform demo_env) ''/root/.config/nvim $TOOLS_DIR/nvim''
      ''/root/.config/nvim'' ''/opt/tools/nvim''"
    by code_simp
  have h2: "os_Stat (demo_platform demo_env) (fs demo_world)
      (filepath_Dir (demo_platform demo_env) ''/root/.config/nvim'')
      = Some (GoError False ''stat /root/.config: permission denied'')"
    by code_simp
  have h3: "\<not> not_exist (GoError False ''stat /root/.config: permission denied'')"
    by simp
  from stat_error_is_not_reported [OF h1 h2 h3, of False]
  show ?thesis using h1 h2 unfolding d by simp
qed

end
